theory Spec2Isabelle
  imports Main
begin

section \<open>Python values\<close>

text \<open>
  A Python \<open>str\<close> is a sequence of Unicode code points, so slicing and \<open>len\<close>
  count code points, not bytes. An ASCII literal of the source is written
  \<open>ascii ''...''\<close>; the three non-ASCII characters of the source are named below.
\<close>

type_synonym str = "nat list"

definition ascii :: "string \<Rightarrow> str" where
  "ascii cs = map of_char cs"

definition em_dash :: nat where "em_dash = 8212"       \<comment> \<open>U+2014\<close>
definition check_mark :: nat where "check_mark = 10003"  \<comment> \<open>U+2713\<close>
definition ballot_x :: nat where "ballot_x = 10007"     \<comment> \<open>U+2717\<close>

text \<open>
  The exceptions that the operations below raise. All of them are subclasses of
  \<open>Exception\<close>; the constructor's argument is the text \<open>str(e)\<close>.
\<close>

datatype exn =
    JSONDecodeError str
  | AttributeError str
  | TypeError str
  | ValueError str
  | OSError str
  | UnicodeError str
  | RuntimeError str

fun exn_str :: "exn \<Rightarrow> str" where
  "exn_str (JSONDecodeError m) = m"
| "exn_str (AttributeError m) = m"
| "exn_str (TypeError m) = m"
| "exn_str (ValueError m) = m"
| "exn_str (OSError m) = m"
| "exn_str (UnicodeError m) = m"
| "exn_str (RuntimeError m) = m"

text \<open>
  The objects \<open>json.loads\<close> returns: \<open>None\<close>, \<open>bool\<close>, \<open>int\<close>, \<open>float\<close>, \<open>str\<close>,
  \<open>list\<close> and \<open>dict\<close> (its items in insertion order; the keys of a JSON object are
  strings). A float is carried by the two observations the program makes of it:
  whether it is zero (its truth value) and its \<open>repr\<close>.
\<close>

datatype pyval =
    PNone
  | PBool bool
  | PInt int
  | PFloat bool str
  | PStr str
  | PList "pyval list"
  | PDict "(str \<times> pyval) list"

fun type_name :: "pyval \<Rightarrow> str" where
  "type_name PNone = ascii ''NoneType''"
| "type_name (PBool _) = ascii ''bool''"
| "type_name (PInt _) = ascii ''int''"
| "type_name (PFloat _ _) = ascii ''float''"
| "type_name (PStr _) = ascii ''str''"
| "type_name (PList _) = ascii ''list''"
| "type_name (PDict _) = ascii ''dict''"

text \<open>\<open>bool(v)\<close>.\<close>

fun truthy :: "pyval \<Rightarrow> bool" where
  "truthy PNone = False"
| "truthy (PBool b) = b"
| "truthy (PInt i) = (i \<noteq> 0)"
| "truthy (PFloat z _) = (\<not> z)"
| "truthy (PStr s) = (s \<noteq> [])"
| "truthy (PList xs) = (xs \<noteq> [])"
| "truthy (PDict kvs) = (kvs \<noteq> [])"

text \<open>
  \<open>v.get(k, d)\<close>: only a dict has the method; on any other object the attribute
  lookup raises \<open>AttributeError\<close>.
\<close>

definition no_get :: "pyval \<Rightarrow> exn" where
  "no_get v =
     AttributeError ([39] @ type_name v @ [39] @ ascii '' object has no attribute '' @ [39] @ ascii ''get'' @ [39])"

definition dict_get :: "(str \<times> pyval) list \<Rightarrow> str \<Rightarrow> pyval \<Rightarrow> pyval" where
  "dict_get kvs k d = (case map_of kvs k of Some v \<Rightarrow> v | None \<Rightarrow> d)"

fun py_get :: "pyval \<Rightarrow> str \<Rightarrow> pyval \<Rightarrow> exn + pyval" where
  "py_get (PDict kvs) k d = Inr (dict_get kvs k d)"
| "py_get v k d = Inl (no_get v)"

text \<open>
  \<open>iter(v)\<close>, run to the end: a list gives its elements, a string its characters
  (strings of length one), a dict its keys; \<open>None\<close>, a bool and a number are not
  iterable.
\<close>

definition not_iterable :: "pyval \<Rightarrow> exn" where
  "not_iterable v = TypeError ([39] @ type_name v @ [39] @ ascii '' object is not iterable'')"

fun py_iter :: "pyval \<Rightarrow> exn + pyval list" where
  "py_iter (PList xs) = Inr xs"
| "py_iter (PStr s) = Inr (map (\<lambda>c. PStr [c]) s)"
| "py_iter (PDict kvs) = Inr (map (\<lambda>kv. PStr (fst kv)) kvs)"
| "py_iter v = Inl (not_iterable v)"

subsection \<open>\<open>str\<close> and \<open>repr\<close> of a value\<close>

fun dec_nat :: "nat \<Rightarrow> str" where
  "dec_nat n = (if n < 10 then [48 + n] else dec_nat (n div 10) @ [48 + n mod 10])"

declare dec_nat.simps [simp del]

definition dec_int :: "int \<Rightarrow> str" where
  "dec_int i = (if i < 0 then 45 # dec_nat (nat (- i)) else dec_nat (nat i))"

definition hexdigit :: "nat \<Rightarrow> nat" where
  "hexdigit d = (if d < 10 then 48 + d else 87 + d)"

fun hex_fixed :: "nat \<Rightarrow> nat \<Rightarrow> str" where
  "hex_fixed 0 n = []"
| "hex_fixed (Suc w) n = hex_fixed w (n div 16) @ [hexdigit (n mod 16)]"

text \<open>
  \<open>repr\<close> of a string: single quotes unless the string has a single quote and no
  double quote; the quote and the backslash are escaped, so are tab, newline, carriage
  return, the other control characters and the non-ASCII characters that the Unicode
  database (the parameter \<open>printable\<close>) does not call printable.
\<close>

definition repr_char :: "(nat \<Rightarrow> bool) \<Rightarrow> nat \<Rightarrow> nat \<Rightarrow> str" where
  "repr_char printable quote ch =
     (if ch = quote \<or> ch = 92 then [92, ch]
      else if ch = 9 then [92, 116]
      else if ch = 10 then [92, 110]
      else if ch = 13 then [92, 114]
      else if ch < 32 \<or> ch = 127 then [92, 120] @ hex_fixed 2 ch
      else if ch < 127 then [ch]
      else if printable ch then [ch]
      else if ch \<le> 255 then [92, 120] @ hex_fixed 2 ch
      else if ch \<le> 65535 then [92, 117] @ hex_fixed 4 ch
      else [92, 85] @ hex_fixed 8 ch)"

definition repr_str :: "(nat \<Rightarrow> bool) \<Rightarrow> str \<Rightarrow> str" where
  "repr_str printable s =
     (let quote = (if 39 \<in> set s \<and> 34 \<notin> set s then 34 else 39)
      in [quote] @ concat (map (repr_char printable quote) s) @ [quote])"

fun join_str :: "str \<Rightarrow> str list \<Rightarrow> str" where
  "join_str sep [] = []"
| "join_str sep [x] = x"
| "join_str sep (x # y # ys) = x @ sep @ join_str sep (y # ys)"

fun py_repr :: "(nat \<Rightarrow> bool) \<Rightarrow> pyval \<Rightarrow> str" where
  "py_repr pr PNone = ascii ''None''"
| "py_repr pr (PBool b) = (if b then ascii ''True'' else ascii ''False'')"
| "py_repr pr (PInt i) = dec_int i"
| "py_repr pr (PFloat z r) = r"
| "py_repr pr (PStr s) = repr_str pr s"
| "py_repr pr (PList xs) = [91] @ join_str (ascii '', '') (map (py_repr pr) xs) @ [93]"
| "py_repr pr (PDict kvs) =
     [123] @ join_str (ascii '', '')
       (map (\<lambda>kv. repr_str pr (fst kv) @ ascii '': '' @ py_repr pr (snd kv)) kvs) @ [125]"

text \<open>
  What an f-string puts for \<open>{v}\<close>: \<open>format(v, '')\<close>, which is \<open>str(v)\<close> for all of
  these types; \<open>str\<close> of a string is the string, of anything else its \<open>repr\<close>.
\<close>

fun py_str :: "(nat \<Rightarrow> bool) \<Rightarrow> pyval \<Rightarrow> str" where
  "py_str pr (PStr s) = s"
| "py_str pr v = py_repr pr v"

section \<open>The environment\<close>

text \<open>
  Paths are strings; \<open>os.path\<close> is the POSIX one. Which file a path string names
  (the working directory, links and normalisation decide it) is the parameter
  \<open>file_id\<close> of the runtime.
\<close>

definition isabs :: "str \<Rightarrow> bool" where
  "isabs p = (case p of [] \<Rightarrow> False | c # _ \<Rightarrow> c = 47)"

definition path_join :: "str \<Rightarrow> str \<Rightarrow> str" where
  "path_join a b =
     (if isabs b then b
      else if a = [] \<or> last a = 47 then a @ b
      else a @ [47] @ b)"

text \<open>
  What the program takes from outside the repository: the decoder \<open>json.loads\<close> of
  the standard library, the absolute path \<open>repo_root()\<close> computes from the module's
  location, the naming of files by paths, and the Unicode database's \<open>isprintable\<close>.
\<close>

record runtime =
  json_loads :: "str \<Rightarrow> exn + pyval"
  repo_root :: str
  file_id :: "str \<Rightarrow> str"
  isprintable :: "nat \<Rightarrow> bool"

text \<open>
  A text file is the characters stored in it and its modification time: what the
  UTF-8 codec gives for the bytes of the file, before any translation of newlines.
  The file system is the set of directories and the files, both by file identity.
\<close>

record textfile =
  content :: str
  mtime :: nat

record fs =
  dirs :: "str set"
  files :: "str \<Rightarrow> textfile option"

text \<open>
  What one call meets in its environment: the local time as
  \<open>strftime("%Y-%m-%d %H:%M:%S")\<close> formats it (digits and punctuation, all ASCII),
  the clock that stamps modification times, and for each system call whether it fails
  for a reason outside this model (permissions, a full disk, a file where
  \<open>os.makedirs\<close> wants a directory, a missing directory above a path, bytes that are
  not UTF-8), and with which exception. A failing write may have put a prefix of its
  data into the file.
\<close>

record io =
  now :: string
  clock :: nat
  makedirs_fault :: "exn option"
  utime_fault :: "exn option"
  open_w_fault :: "exn option"
  write_w_fault :: "(exn \<times> nat) option"
  print_fault :: "exn option"
  open_a_fault :: "exn option"
  write_a_fault :: "(exn \<times> nat) option"
  read_fault :: "exn option"

definition path_exists :: "runtime \<Rightarrow> fs \<Rightarrow> str \<Rightarrow> bool" where
  "path_exists rt s p = (files s (file_id rt p) \<noteq> None \<or> file_id rt p \<in> dirs s)"

text \<open>\<open>os.makedirs(p, exist_ok=True)\<close>\<close>

definition os_makedirs :: "runtime \<Rightarrow> io \<Rightarrow> fs \<Rightarrow> str \<Rightarrow> (exn + unit) \<times> fs" where
  "os_makedirs rt io s p =
     (case makedirs_fault io of
        Some e \<Rightarrow> (Inl e, s)
      | None \<Rightarrow> (Inr (), s\<lparr>dirs := insert (file_id rt p) (dirs s)\<rparr>))"

text \<open>\<open>os.utime(p, times=None)\<close>\<close>

definition os_utime :: "runtime \<Rightarrow> io \<Rightarrow> fs \<Rightarrow> str \<Rightarrow> (exn + unit) \<times> fs" where
  "os_utime rt io s p =
     (case utime_fault io of
        Some e \<Rightarrow> (Inl e, s)
      | None \<Rightarrow>
          (Inr (),
           case files s (file_id rt p) of
             None \<Rightarrow> s
           | Some f \<Rightarrow> s\<lparr>files := (files s)(file_id rt p \<mapsto> f\<lparr>mtime := clock io\<rparr>)\<rparr>))"

definition put_file :: "runtime \<Rightarrow> io \<Rightarrow> fs \<Rightarrow> str \<Rightarrow> str \<Rightarrow> fs" where
  "put_file rt io s p d =
     s\<lparr>files := (files s)(file_id rt p \<mapsto> \<lparr>content = d, mtime = clock io\<rparr>)\<rparr>"

text \<open>\<open>with open(p, "w", encoding="utf-8") as f: f.write(d)\<close>\<close>

definition write_new :: "runtime \<Rightarrow> io \<Rightarrow> fs \<Rightarrow> str \<Rightarrow> str \<Rightarrow> (exn + unit) \<times> fs" where
  "write_new rt io s p d =
     (case open_w_fault io of
        Some e \<Rightarrow> (Inl e, s)
      | None \<Rightarrow>
          (case write_w_fault io of
             Some (e, n) \<Rightarrow> (Inl e, put_file rt io s p (take n d))
           | None \<Rightarrow> (Inr (), put_file rt io s p d)))"

definition file_text :: "fs \<Rightarrow> str \<Rightarrow> str" where
  "file_text s i = (case files s i of None \<Rightarrow> [] | Some f \<Rightarrow> content f)"

subsection \<open>The text layer\<close>

text \<open>
  The UTF-8 codec refuses a surrogate code point (U+D800 to U+DFFF), which a Python
  string can hold: \<open>json.loads\<close> gives one for an escape like \<open>\ud800\<close> that has no
  partner. The error names the first surrogate and its position in the string, or
  the positions of the run of surrogates that begins there.
\<close>

definition is_surrogate :: "nat \<Rightarrow> bool" where
  "is_surrogate c = (55296 \<le> c \<and> c \<le> 57343)"

definition encodable :: "str \<Rightarrow> bool" where
  "encodable t = (\<not> list_ex is_surrogate t)"

definition cannot_encode :: "nat \<Rightarrow> nat \<Rightarrow> nat \<Rightarrow> exn" where
  "cannot_encode c i j =
     UnicodeError
       ([39] @ ascii ''utf-8'' @ [39] @ ascii '' codec can'' @ [39] @ ascii ''t encode ''
        @ (if j = i + 1
           then ascii ''character '' @ [39, 92, 117] @ hex_fixed 4 c @ [39]
                @ ascii '' in position '' @ dec_nat i
           else ascii ''characters in position '' @ dec_nat i @ [45] @ dec_nat (j - 1))
        @ ascii '': surrogates not allowed'')"

definition utf8_encode_error :: "str \<Rightarrow> exn option" where
  "utf8_encode_error t =
     (let pre = takeWhile (\<lambda>c. \<not> is_surrogate c) t;
          rest = dropWhile (\<lambda>c. \<not> is_surrogate c) t
      in case rest of
           [] \<Rightarrow> None
         | c # _ \<Rightarrow>
             Some (cannot_encode c (length pre) (length pre + length (takeWhile is_surrogate rest))))"

text \<open>
  A path goes to the system in the file system's encoding, UTF-8 with the error
  handler \<open>surrogateescape\<close>: the surrogates U+DC80 to U+DCFF stand for bytes and
  pass, any other surrogate is refused.
\<close>

definition unescapable :: "nat \<Rightarrow> bool" where
  "unescapable c = (is_surrogate c \<and> \<not> (56448 \<le> c \<and> c \<le> 56575))"

definition fs_encode_error :: "str \<Rightarrow> exn option" where
  "fs_encode_error p =
     (let pre = takeWhile (\<lambda>c. \<not> unescapable c) p;
          rest = dropWhile (\<lambda>c. \<not> unescapable c) p
      in case rest of
           [] \<Rightarrow> None
         | c # _ \<Rightarrow>
             Some (cannot_encode c (length pre) (length pre + length (takeWhile is_surrogate rest))))"

text \<open>
  \<open>f.writelines(lines)\<close> writes the lines one by one and each write encodes its line:
  the text of the lines before the first line that the codec refuses, and the error
  of that line. The text accepted so far reaches the file when the file is closed.
\<close>

fun writelines :: "str list \<Rightarrow> str \<times> exn option" where
  "writelines [] = ([], None)"
| "writelines (l # ls) =
     (case utf8_encode_error l of
        Some e \<Rightarrow> ([], Some e)
      | None \<Rightarrow> (case writelines ls of (d, r) \<Rightarrow> (l @ d, r)))"

text \<open>
  The file of the path \<open>p\<close> after \<open>d\<close> has been written at its end: a file that was not
  there is created; an existing file to which nothing is written stays as it is.
\<close>

definition store_text :: "runtime \<Rightarrow> io \<Rightarrow> fs \<Rightarrow> str \<Rightarrow> str \<Rightarrow> fs" where
  "store_text rt io s p d =
     (if d = [] \<and> files s (file_id rt p) \<noteq> None then s
      else put_file rt io s p (file_text s (file_id rt p) @ d))"

text \<open>
  \<open>open(p, "a", encoding="utf-8")\<close>: the conversion of the path fails on a surrogate
  and on a null character, the system call fails on the empty path, for a reason of
  the environment, and on a directory.
\<close>

definition open_append_error :: "runtime \<Rightarrow> io \<Rightarrow> fs \<Rightarrow> str \<Rightarrow> exn option" where
  "open_append_error rt io s p =
     (case fs_encode_error p of
        Some e \<Rightarrow> Some e
      | None \<Rightarrow>
          if 0 \<in> set p then Some (ValueError (ascii ''embedded null byte''))
          else if p = [] then
            Some (OSError (ascii ''[Errno 2] No such file or directory: '' @ [39, 39]))
          else
            (case open_a_fault io of
               Some e \<Rightarrow> Some e
             | None \<Rightarrow>
                 if file_id rt p \<in> dirs s then
                   Some (OSError (ascii ''[Errno 21] Is a directory: '' @ repr_str (isprintable rt) p))
                 else None))"

text \<open>\<open>with open(p, "a", encoding="utf-8") as f: f.writelines(lines)\<close>\<close>

definition append_lines :: "runtime \<Rightarrow> io \<Rightarrow> fs \<Rightarrow> str \<Rightarrow> str list \<Rightarrow> (exn + unit) \<times> fs" where
  "append_lines rt io s p lines =
     (case open_append_error rt io s p of
        Some e \<Rightarrow> (Inl e, s)
      | None \<Rightarrow>
          (case writelines lines of
             (d, refused) \<Rightarrow>
               (case write_a_fault io of
                  Some (e, n) \<Rightarrow> (Inl e, store_text rt io s p (take n d))
                | None \<Rightarrow>
                    (case refused of
                       Some e \<Rightarrow> (Inl e, store_text rt io s p d)
                     | None \<Rightarrow> (Inr (), store_text rt io s p d)))))"

text \<open>
  Reading in text mode with the default \<open>newline=None\<close>: a carriage return, alone or
  before a line feed, is read as one line feed.
\<close>

fun universal_newlines :: "str \<Rightarrow> str" where
  "universal_newlines [] = []"
| "universal_newlines (c # cs) =
     (if c = 13 then
        (case cs of
           [] \<Rightarrow> [10]
         | d # ds \<Rightarrow> if d = 10 then 10 # universal_newlines ds else 10 # universal_newlines cs)
      else c # universal_newlines cs)"

text \<open>\<open>with open(p, "r", encoding="utf-8") as f: f.read()\<close>\<close>

definition read_text :: "runtime \<Rightarrow> io \<Rightarrow> fs \<Rightarrow> str \<Rightarrow> exn + str" where
  "read_text rt io s p =
     (case read_fault io of
        Some e \<Rightarrow> Inl e
      | None \<Rightarrow>
          (case files s (file_id rt p) of
             Some f \<Rightarrow> Inr (universal_newlines (content f))
           | None \<Rightarrow>
               Inl (OSError
                 ((if file_id rt p \<in> dirs s then ascii ''[Errno 21] Is a directory: ''
                   else ascii ''[Errno 2] No such file or directory: '')
                  @ repr_str (isprintable rt) p))))"

text \<open>\<open>t[:k]\<close>\<close>

definition slice_to :: "int \<Rightarrow> str \<Rightarrow> str" where
  "slice_to k t = (if 0 \<le> k then take (nat k) t else take (length t - nat (- k)) t)"

section \<open>Test and report utilities\<close>

definition suites_path :: "runtime \<Rightarrow> str" where
  "suites_path rt = path_join (repo_root rt) (ascii ''test_suites.md'')"

definition suites_stub :: str where
  "suites_stub = ascii ''# Generated Test Suites'' @ [10, 10] @ ascii ''Please fill with test cases.'' @ [10]"

text \<open>
  \<open>generate_test_suites_file\<close>: touch the file when it is there, write the stub
  otherwise; an exception of either is printed and \<open>None\<close> returned. An exception of
  the \<open>print\<close> in the handler leaves the function.
\<close>

definition generate_test_suites_file :: "runtime \<Rightarrow> io \<Rightarrow> fs \<Rightarrow> (exn + str option) \<times> fs" where
  "generate_test_suites_file rt io s =
     (let target = suites_path rt in
      case (if path_exists rt s target then os_utime rt io s target
            else write_new rt io s target suites_stub) of
        (Inr _, s') \<Rightarrow> (Inr (Some target), s')
      | (Inl e, s') \<Rightarrow>
          (case print_fault io of
             None \<Rightarrow> (Inr None, s')
           | Some e' \<Rightarrow> (Inl e', s')))"

definition results_path :: "runtime \<Rightarrow> str" where
  "results_path rt =
     path_join (path_join (repo_root rt) (ascii ''test_reports'')) (ascii ''results.md'')"

definition read_latest_report_summary :: "runtime \<Rightarrow> io \<Rightarrow> fs \<Rightarrow> int \<Rightarrow> str option" where
  "read_latest_report_summary rt io s max_chars =
     (let rpt = results_path rt in
      if \<not> path_exists rt s rpt then None
      else
        (case read_text rt io s rpt of
           Inr t \<Rightarrow> Some (slice_to max_chars t)
         | Inl e \<Rightarrow> Some (ascii ''Failed to read report: '' @ exn_str e)))"

definition reports_dir :: "runtime \<Rightarrow> str" where
  "reports_dir rt = path_join (repo_root rt) (ascii ''test_reports'')"

definition ensure_reports_dir :: "runtime \<Rightarrow> io \<Rightarrow> fs \<Rightarrow> (exn + str) \<times> fs" where
  "ensure_reports_dir rt io s =
     (let path = reports_dir rt in
      case os_makedirs rt io s path of
        (Inl e, s') \<Rightarrow> (Inl e, s')
      | (Inr _, s') \<Rightarrow> (Inr path, s'))"

section \<open>The tool \<open>write_report\<close>\<close>

text \<open>One round of the loop over \<open>checks\<close>: the line of the check \<open>c\<close>.\<close>

definition check_line :: "(nat \<Rightarrow> bool) \<Rightarrow> pyval \<Rightarrow> exn + str" where
  "check_line pr c =
     (case py_get c (ascii ''ok'') PNone of Inl e \<Rightarrow> Inl e | Inr okv \<Rightarrow>
      (case py_get c (ascii ''name'') (PStr []) of Inl e \<Rightarrow> Inl e | Inr nm \<Rightarrow>
       (case py_get c (ascii ''details'') (PStr []) of Inl e \<Rightarrow> Inl e | Inr det \<Rightarrow>
          Inr (ascii ''  - ['' @ [if truthy okv then check_mark else ballot_x] @ ascii ''] ''
               @ py_str pr nm @ [32, em_dash, 32] @ py_str pr det @ [10]))))"

text \<open>The loop \<open>for c in checks: ... lines.append(...)\<close>.\<close>

fun for_checks :: "(nat \<Rightarrow> bool) \<Rightarrow> str list \<Rightarrow> pyval list \<Rightarrow> exn + str list" where
  "for_checks pr lines [] = Inr lines"
| "for_checks pr lines (c # cs) =
     (case check_line pr c of
        Inl e \<Rightarrow> Inl e
      | Inr l \<Rightarrow> for_checks pr (lines @ [l]) cs)"

definition separator :: str where
  "separator = [10] @ ascii ''---'' @ [10, 10]"

text \<open>
  The lines of the markdown block, from the decoded object \<open>obj\<close> and the formatted
  time: the part of \<open>write_report\<close> between \<open>json.loads\<close> and \<open>open\<close>.
\<close>

definition block_lines :: "runtime \<Rightarrow> str \<Rightarrow> pyval \<Rightarrow> str \<Rightarrow> exn + str list" where
  "block_lines rt test_name obj tm =
     (case py_get obj (ascii ''status'') (PStr (ascii ''UNKNOWN'')) of Inl e \<Rightarrow> Inl e | Inr status \<Rightarrow>
      (case py_get obj (ascii ''checks'') (PList []) of Inl e \<Rightarrow> Inl e | Inr checks \<Rightarrow>
       (case py_get obj (ascii ''artifacts'') (PDict []) of Inl e \<Rightarrow> Inl e | Inr artifacts \<Rightarrow>
        (case py_get artifacts (ascii ''url'') (PStr []) of Inl e \<Rightarrow> Inl e | Inr url \<Rightarrow>
         (case py_get artifacts (ascii ''title'') (PStr []) of Inl e \<Rightarrow> Inl e | Inr title \<Rightarrow>
          (let lines =
             [ascii ''## '' @ test_name @ [32, em_dash, 32] @ py_str (isprintable rt) status @ [10],
              ascii ''- When: '' @ tm @ [10],
              ascii ''- URL: '' @ py_str (isprintable rt) url @ [10],
              ascii ''- Title: '' @ py_str (isprintable rt) title @ [10],
              ascii ''- Checks:'' @ [10]]
           in
           case py_iter checks of Inl e \<Rightarrow> Inl e | Inr cs \<Rightarrow>
           (case for_checks (isprintable rt) lines cs of Inl e \<Rightarrow> Inl e | Inr lines' \<Rightarrow>
              Inr (lines' @ [separator]))))))))"

text \<open>The body of the \<open>try\<close>: it returns the path or raises.\<close>

definition write_report_body ::
  "runtime \<Rightarrow> io \<Rightarrow> fs \<Rightarrow> str \<Rightarrow> str \<Rightarrow> str option \<Rightarrow> (exn + str) \<times> fs" where
  "write_report_body rt io s test_name status_json report_file =
     (case ensure_reports_dir rt io s of
        (Inl e, s1) \<Rightarrow> (Inl e, s1)
      | (Inr _, s1) \<Rightarrow>
     (case generate_test_suites_file rt io s1 of
        (Inl e, s2) \<Rightarrow> (Inl e, s2)
      | (Inr _, s2) \<Rightarrow>
     (let report_file' = (case report_file of None \<Rightarrow> results_path rt | Some p \<Rightarrow> p) in
      case json_loads rt status_json of
        Inl e \<Rightarrow> (Inl e, s2)
      | Inr obj \<Rightarrow>
     (case block_lines rt test_name obj (ascii (now io)) of
        Inl e \<Rightarrow> (Inl e, s2)
      | Inr lines \<Rightarrow>
     (case append_lines rt io s2 report_file' lines of
        (Inl e, s3) \<Rightarrow> (Inl e, s3)
      | (Inr _, s3) \<Rightarrow> (Inr report_file', s3))))))"

text \<open>
  The dict the tool returns: \<open>{"ok": True, "path": p}\<close> or
  \<open>{"ok": False, "error": m}\<close>.
\<close>

datatype result = is_Ok: Ok str | Err str

text \<open>\<open>try: ... except Exception as e: return {"ok": False, "error": str(e)}\<close>\<close>

definition write_report ::
  "runtime \<Rightarrow> io \<Rightarrow> fs \<Rightarrow> str \<Rightarrow> str \<Rightarrow> str option \<Rightarrow> result \<times> fs" where
  "write_report rt io s test_name status_json report_file =
     (case write_report_body rt io s test_name status_json report_file of
        (Inr p, s') \<Rightarrow> (Ok p, s')
      | (Inl e, s') \<Rightarrow> (Err (exn_str e), s'))"

section \<open>Notions for the statements\<close>

text \<open>The path \<open>write_report\<close> opens: the override as given, or the default.\<close>

definition store_path :: "runtime \<Rightarrow> str option \<Rightarrow> str" where
  "store_path rt report_file = (case report_file of None \<Rightarrow> results_path rt | Some p \<Rightarrow> p)"

text \<open>The file system as the first two statements of \<open>write_report\<close> leave it.\<close>

definition prepared :: "runtime \<Rightarrow> io \<Rightarrow> fs \<Rightarrow> fs" where
  "prepared rt io s = snd (generate_test_suites_file rt io (snd (ensure_reports_dir rt io s)))"

text \<open>No system call of \<open>write_report\<close> fails.\<close>

definition no_faults :: "io \<Rightarrow> bool" where
  "no_faults io =
     (makedirs_fault io = None \<and> utime_fault io = None \<and> open_w_fault io = None \<and>
      write_w_fault io = None \<and> open_a_fault io = None \<and> write_a_fault io = None)"

fun is_dict :: "pyval \<Rightarrow> bool" where
  "is_dict (PDict _) = True"
| "is_dict _ = False"

text \<open>
  The decoded values \<open>write_report\<close> can format: a dict whose \<open>artifacts\<close>, when
  present, is a dict, and whose \<open>checks\<close>, when present, is iterable with dicts
  only as elements.
\<close>

definition well_shaped :: "pyval \<Rightarrow> bool" where
  "well_shaped obj =
     (case obj of
        PDict kvs \<Rightarrow>
          is_dict (dict_get kvs (ascii ''artifacts'') (PDict [])) \<and>
          (case py_iter (dict_get kvs (ascii ''checks'') (PList [])) of
             Inl _ \<Rightarrow> False
           | Inr cs \<Rightarrow> list_all is_dict cs)
      | _ \<Rightarrow> False)"

text \<open>
  The path can be opened for appending, as far as the path and the file system say:
  the system accepts the path and no directory is there.
\<close>

definition store_opens :: "runtime \<Rightarrow> fs \<Rightarrow> str \<Rightarrow> bool" where
  "store_opens rt s p =
     (fs_encode_error p = None \<and> 0 \<notin> set p \<and> p \<noteq> [] \<and> file_id rt p \<notin> dirs s)"

text \<open>
  The marker for a value of \<open>ok\<close>, kind by kind: the ballot x for \<open>None\<close>, \<open>False\<close>,
  zero and the empty string, list and dict, the check mark for every other value.
\<close>

definition ok_marker :: "pyval \<Rightarrow> nat" where
  "ok_marker v =
     (case v of
        PNone \<Rightarrow> ballot_x
      | PBool b \<Rightarrow> if b then check_mark else ballot_x
      | PInt i \<Rightarrow> if i = 0 then ballot_x else check_mark
      | PFloat z r \<Rightarrow> if z then ballot_x else check_mark
      | PStr t \<Rightarrow> if t = [] then ballot_x else check_mark
      | PList xs \<Rightarrow> if xs = [] then ballot_x else check_mark
      | PDict kvs \<Rightarrow> if kvs = [] then ballot_x else check_mark)"

text \<open>The line of a check that is a dict with the items \<open>c\<close>.\<close>

definition check_text :: "(nat \<Rightarrow> bool) \<Rightarrow> (str \<times> pyval) list \<Rightarrow> str" where
  "check_text pr c =
     ascii ''  - ['' @ [ok_marker (dict_get c (ascii ''ok'') PNone)]
     @ ascii ''] '' @ py_str pr (dict_get c (ascii ''name'') (PStr []))
     @ [32, em_dash, 32] @ py_str pr (dict_get c (ascii ''details'') (PStr [])) @ [10]"

text \<open>
  The status as the heading shows it: the value of the field \<open>status\<close>, a string as
  it is, and \<open>UNKNOWN\<close> when the dict has no such key.
\<close>

definition status_shown :: "(nat \<Rightarrow> bool) \<Rightarrow> (str \<times> pyval) list \<Rightarrow> str" where
  "status_shown pr kvs =
     (case map_of kvs (ascii ''status'') of
        None \<Rightarrow> ascii ''UNKNOWN''
      | Some (PStr t) \<Rightarrow> t
      | Some v \<Rightarrow> py_repr pr v)"

text \<open>
  A run of calls of \<open>write_report\<close>, one after the other: each call has its own
  environment, test name, verdict text and report path.
\<close>

type_synonym call = "io \<times> str \<times> str \<times> str option"

fun run_calls :: "runtime \<Rightarrow> fs \<Rightarrow> call list \<Rightarrow> result list \<times> fs" where
  "run_calls rt s [] = ([], s)"
| "run_calls rt s ((io, test_name, status_json, report_file) # cs) =
     (case write_report rt io s test_name status_json report_file of
        (r, s') \<Rightarrow> (case run_calls rt s' cs of (rs, s'') \<Rightarrow> (r # rs, s'')))"

text \<open>The block a call formats (empty when the call formats none).\<close>

fun block_text :: "runtime \<Rightarrow> call \<Rightarrow> str" where
  "block_text rt (io, test_name, status_json, report_file) =
     (case json_loads rt status_json of
        Inl _ \<Rightarrow> []
      | Inr obj \<Rightarrow>
          (case block_lines rt test_name obj (ascii (now io)) of
             Inl _ \<Rightarrow> []
           | Inr lines \<Rightarrow> concat lines))"

fun call_store :: "runtime \<Rightarrow> call \<Rightarrow> str" where
  "call_store rt (io, test_name, status_json, report_file) = file_id rt (store_path rt report_file)"

subsection \<open>A concrete environment\<close>

text \<open>
  The verdict text of the scenario and the object \<open>json.loads\<close> gives for it.
\<close>

definition verdict_text :: str where
  \<open>verdict_text = ascii ''{"status":"PASS","checks":[{"name":"cart count","ok":true,"details":"1 item"}],"artifacts":{"url":"https://flipkart.com","title":"Flipkart"}}''\<close>

definition verdict_obj :: pyval where
  "verdict_obj =
     PDict [(ascii ''status'', PStr (ascii ''PASS'')),
            (ascii ''checks'',
               PList [PDict [(ascii ''name'', PStr (ascii ''cart count'')),
                             (ascii ''ok'', PBool True),
                             (ascii ''details'', PStr (ascii ''1 item''))]]),
            (ascii ''artifacts'',
               PDict [(ascii ''url'', PStr (ascii ''https://flipkart.com'')),
                      (ascii ''title'', PStr (ascii ''Flipkart''))])]"

definition skipped_text :: str where
  \<open>skipped_text = ascii ''{"status":"SKIPPED"}''\<close>

definition checks5_text :: str where
  \<open>checks5_text = ascii ''{"checks":5}''\<close>

definition not_json :: str where
  "not_json = ascii ''{not json''"

text \<open>A check whose \<open>ok\<close> is the string \<open>no\<close>, and a status that is a lone surrogate.\<close>

definition ok_no_text :: str where
  \<open>ok_no_text = ascii ''{"checks":[{"name":"login","ok":"no","details":"form"}]}''\<close>

definition ok_no_obj :: pyval where
  "ok_no_obj =
     PDict [(ascii ''checks'',
               PList [PDict [(ascii ''name'', PStr (ascii ''login'')),
                             (ascii ''ok'', PStr (ascii ''no'')),
                             (ascii ''details'', PStr (ascii ''form''))]])]"

definition surrogate_text :: str where
  \<open>surrogate_text = ascii ''{"status":"'' @ [92] @ ascii ''ud800"}''\<close>

text \<open>
  \<open>json.loads\<close> on the texts of the examples: six JSON texts, and its error for
  the text \<open>{not json\<close>, which is the only other text the examples give it.
\<close>

definition example_loads :: "str \<Rightarrow> exn + pyval" where
  "example_loads t =
     (if t = verdict_text then Inr verdict_obj
      else if t = ascii ''{}'' then Inr (PDict [])
      else if t = skipped_text then Inr (PDict [(ascii ''status'', PStr (ascii ''SKIPPED''))])
      else if t = checks5_text then Inr (PDict [(ascii ''checks'', PInt 5)])
      else if t = ok_no_text then Inr ok_no_obj
      else if t = surrogate_text then Inr (PDict [(ascii ''status'', PStr [55296])])
      else Inl (JSONDecodeError
        (ascii ''Expecting property name enclosed in double quotes: line 1 column 2 (char 1)'')))"

text \<open>
  A runtime whose repository is at \<open>/repo\<close>, with the working directory \<open>/work\<close>:
  a relative path names the file below the working directory.
\<close>

definition example_runtime :: runtime where
  "example_runtime =
     \<lparr>json_loads = example_loads, repo_root = ascii ''/repo'',
      file_id = path_join (ascii ''/work''), isprintable = (\<lambda>c. True)\<rparr>"

definition quiet :: "nat \<Rightarrow> io" where
  "quiet t =
     \<lparr>now = ''2026-01-01 00:00:00'', clock = t, makedirs_fault = None, utime_fault = None,
      open_w_fault = None, write_w_fault = None, print_fault = None, open_a_fault = None,
      write_a_fault = None, read_fault = None\<rparr>"

definition empty_fs :: fs where
  "empty_fs = \<lparr>dirs = {}, files = (\<lambda>i. None)\<rparr>"

text \<open>The block of the scenario, written at the time \<open>tm\<close>.\<close>

definition flipkart_block :: "str \<Rightarrow> str" where
  "flipkart_block tm =
     ascii ''## Flipkart Add To Cart '' @ [em_dash] @ ascii '' PASS'' @ [10]
     @ ascii ''- When: '' @ tm @ [10]
     @ ascii ''- URL: https://flipkart.com'' @ [10]
     @ ascii ''- Title: Flipkart'' @ [10]
     @ ascii ''- Checks:'' @ [10]
     @ ascii ''  - ['' @ [check_mark] @ ascii ''] cart count '' @ [em_dash] @ ascii '' 1 item'' @ [10]
     @ separator"

text \<open>A file system in which the catalog file has been filled in.\<close>

definition catalog_fs :: fs where
  "catalog_fs = put_file example_runtime (quiet 0) empty_fs (ascii ''/repo/test_suites.md'') (ascii ''# my suites'')"

text \<open>
  A file system with a directory where the store file would be, and one in which
  the store file holds a carriage return.
\<close>

definition dir_fs :: fs where
  "dir_fs = empty_fs\<lparr>dirs := {ascii ''/repo/test_reports'', ascii ''/repo/test_reports/results.md''}\<rparr>"

definition cr_fs :: fs where
  "cr_fs =
     put_file example_runtime (quiet 0) empty_fs (ascii ''/repo/test_reports/results.md'')
       (ascii ''A'' @ [13] @ ascii ''B'')"

text \<open>An environment in which every system call that writes fails, and \<open>print\<close> too.\<close>

definition read_only_error :: exn where
  "read_only_error = OSError (ascii ''[Errno 30] Read-only file system'')"

definition read_only :: io where
  "read_only =
     (quiet 0)\<lparr>makedirs_fault := Some read_only_error, utime_fault := Some read_only_error,
       open_w_fault := Some read_only_error, print_fault := Some read_only_error,
       open_a_fault := Some read_only_error, write_a_fault := Some (read_only_error, 0)\<rparr>"

section \<open>Auxiliary facts\<close>

lemma ensure_files: "files (snd (ensure_reports_dir rt io s)) = files s"
  by (simp add: ensure_reports_dir_def os_makedirs_def Let_def split: option.splits)

lemma generate_frame:
  "i \<noteq> file_id rt (suites_path rt) \<Longrightarrow> files (snd (generate_test_suites_file rt io s)) i = files s i"
  by (simp add: generate_test_suites_file_def os_utime_def write_new_def put_file_def Let_def
      split: option.splits prod.splits sum.splits)

lemma prepared_frame:
  "i \<noteq> file_id rt (suites_path rt) \<Longrightarrow> files (prepared rt io s) i = files s i"
  by (simp add: prepared_def generate_frame ensure_files)

lemma check_line_dict: "check_line pr (PDict c) = Inr (check_text pr c)"
  by (cases "dict_get c (ascii ''ok'') PNone") (simp_all add: check_line_def check_text_def ok_marker_def)

lemma check_line_not_dict: "\<not> is_dict c \<Longrightarrow> check_line pr c = Inl (no_get c)"
  by (cases c) (simp_all add: check_line_def)

lemma for_checks_dicts:
  "for_checks pr acc (map PDict ds) = Inr (acc @ map (check_text pr) ds)"
  by (induction ds arbitrary: acc) (simp_all add: check_line_dict)

lemma list_all_is_dict: "list_all is_dict cs \<Longrightarrow> \<exists>ds. cs = map PDict ds"
proof (induction cs)
  case Nil
  then show ?case by simp
next
  case (Cons c cs)
  then obtain ds where "cs = map PDict ds" by auto
  moreover from Cons.prems obtain d where "c = PDict d" by (cases c) auto
  ultimately have "c # cs = map PDict (d # ds)" by simp
  then show ?case ..
qed

lemma for_checks_Inr:
  "for_checks pr acc cs = Inr ls \<Longrightarrow> list_all is_dict cs"
proof (induction cs arbitrary: acc)
  case Nil
  then show ?case by simp
next
  case (Cons c cs)
  show ?case
  proof (cases "is_dict c")
    case True
    with Cons show ?thesis by (auto split: sum.splits)
  next
    case False
    with Cons.prems show ?thesis by (simp add: check_line_not_dict)
  qed
qed

lemma block_lines_dict:
  "block_lines rt n obj tm = Inr ls \<Longrightarrow>
   \<exists>kvs a ds. obj = PDict kvs \<and>
     dict_get kvs (ascii ''artifacts'') (PDict []) = PDict a \<and>
     py_iter (dict_get kvs (ascii ''checks'') (PList [])) = Inr (map PDict ds) \<and>
     ls = [ascii ''## '' @ n @ [32, em_dash, 32] @ py_str (isprintable rt) (dict_get kvs (ascii ''status'') (PStr (ascii ''UNKNOWN''))) @ [10],
           ascii ''- When: '' @ tm @ [10],
           ascii ''- URL: '' @ py_str (isprintable rt) (dict_get a (ascii ''url'') (PStr [])) @ [10],
           ascii ''- Title: '' @ py_str (isprintable rt) (dict_get a (ascii ''title'') (PStr [])) @ [10],
           ascii ''- Checks:'' @ [10]]
          @ map (check_text (isprintable rt)) ds @ [separator]"
proof -
  assume a: "block_lines rt n obj tm = Inr ls"
  then obtain kvs where o: "obj = PDict kvs"
    by (cases obj) (simp_all add: block_lines_def)
  from a o obtain a' where ar: "dict_get kvs (ascii ''artifacts'') (PDict []) = PDict a'"
    by (cases "dict_get kvs (ascii ''artifacts'') (PDict [])") (simp_all add: block_lines_def)
  from a o ar obtain cs where it: "py_iter (dict_get kvs (ascii ''checks'') (PList [])) = Inr cs"
    by (cases "py_iter (dict_get kvs (ascii ''checks'') (PList []))") (simp_all add: block_lines_def Let_def)
  let ?hd = "[ascii ''## '' @ n @ [32, em_dash, 32] @ py_str (isprintable rt) (dict_get kvs (ascii ''status'') (PStr (ascii ''UNKNOWN''))) @ [10],
           ascii ''- When: '' @ tm @ [10],
           ascii ''- URL: '' @ py_str (isprintable rt) (dict_get a' (ascii ''url'') (PStr [])) @ [10],
           ascii ''- Title: '' @ py_str (isprintable rt) (dict_get a' (ascii ''title'') (PStr [])) @ [10],
           ascii ''- Checks:'' @ [10]]"
  from a o ar it obtain ls' where fc: "for_checks (isprintable rt) ?hd cs = Inr ls'" and l: "ls = ls' @ [separator]"
    by (cases "for_checks (isprintable rt) ?hd cs") (simp_all add: block_lines_def Let_def)
  from fc have "list_all is_dict cs" by (rule for_checks_Inr)
  then obtain ds where d: "cs = map PDict ds" using list_all_is_dict by blast
  with fc have "ls' = ?hd @ map (check_text (isprintable rt)) ds" by (simp add: for_checks_dicts)
  with o ar it d l show ?thesis by (auto intro!: exI [of _ ds])
qed

lemma block_lines_well_shaped:
  "(\<exists>ls. block_lines rt n obj tm = Inr ls) = well_shaped obj"
proof
  assume "\<exists>ls. block_lines rt n obj tm = Inr ls"
  then obtain ls where "block_lines rt n obj tm = Inr ls" ..
  from block_lines_dict [OF this] show "well_shaped obj"
    by (auto simp: well_shaped_def list_all_iff)
next
  assume w: "well_shaped obj"
  then obtain kvs where o: "obj = PDict kvs" by (cases obj) (simp_all add: well_shaped_def)
  from w o obtain a where ar: "dict_get kvs (ascii ''artifacts'') (PDict []) = PDict a"
    by (cases "dict_get kvs (ascii ''artifacts'') (PDict [])") (simp_all add: well_shaped_def)
  from w o obtain cs where it: "py_iter (dict_get kvs (ascii ''checks'') (PList [])) = Inr cs"
    and al: "list_all is_dict cs"
    by (cases "py_iter (dict_get kvs (ascii ''checks'') (PList []))") (simp_all add: well_shaped_def)
  from al obtain ds where d: "cs = map PDict ds" using list_all_is_dict by blast
  show "\<exists>ls. block_lines rt n obj tm = Inr ls"
    by (simp add: block_lines_def o ar it d for_checks_dicts Let_def)
qed

lemma separator_not_empty: "separator \<noteq> []"
  by (simp add: separator_def)

lemma block_lines_not_empty:
  assumes "block_lines rt n obj tm = Inr ls"
  shows "concat ls \<noteq> []"
  using block_lines_dict [OF assms] by (auto simp: separator_not_empty)

section \<open>Facts about the files\<close>

lemma files_put_file:
  "files (put_file rt io s p d) i =
     (if i = file_id rt p then Some \<lparr>content = d, mtime = clock io\<rparr> else files s i)"
  by (simp add: put_file_def)

lemma dirs_put_file: "dirs (put_file rt io s p d) = dirs s"
  by (simp add: put_file_def)

lemma file_text_put_file:
  "file_text (put_file rt io s p d) i = (if i = file_id rt p then d else file_text s i)"
  by (simp add: file_text_def files_put_file)

lemma file_text_prepared:
  "i \<noteq> file_id rt (suites_path rt) \<Longrightarrow> file_text (prepared rt io s) i = file_text s i"
  by (simp add: file_text_def prepared_frame)

lemma status_shown_get:
  "py_str pr (dict_get kvs (ascii ''status'') (PStr (ascii ''UNKNOWN''))) = status_shown pr kvs"
proof (cases "map_of kvs (ascii ''status'')")
  case None
  then show ?thesis by (simp add: dict_get_def status_shown_def)
next
  case (Some v)
  then show ?thesis by (cases v) (simp_all add: dict_get_def status_shown_def)
qed

lemma encodable_Nil: "encodable []"
  by (simp add: encodable_def)

lemma encodable_Cons: "encodable (c # cs) = (\<not> is_surrogate c \<and> encodable cs)"
  by (simp add: encodable_def)

lemma encodable_append: "encodable (a @ b) = (encodable a \<and> encodable b)"
  by (auto simp: encodable_def)

lemma encodable_ascii: "encodable (ascii cs)"
proof -
  have "\<not> is_surrogate (of_char c)" for c :: char
  proof -
    have "(of_char c :: nat) < 256" by simp
    then have "\<not> 55296 \<le> (of_char c :: nat)" by linarith
    then show ?thesis by (simp add: is_surrogate_def)
  qed
  then show ?thesis by (simp add: encodable_def ascii_def list_ex_iff)
qed

lemma encodable_concat: "encodable (concat ls) = list_all encodable ls"
  by (induction ls) (simp_all add: encodable_Nil encodable_append)

lemmas encodable_simps =
  encodable_Nil encodable_Cons encodable_append encodable_ascii is_surrogate_def
  em_dash_def check_mark_def ballot_x_def separator_def

lemma case_list_None: "((case xs of [] \<Rightarrow> None | c # cs \<Rightarrow> Some (f c cs)) = None) = (xs = [])"
  by (cases xs) simp_all

lemma utf8_encode_error_None: "(utf8_encode_error t = None) = encodable t"
proof -
  have "(utf8_encode_error t = None) = (dropWhile (\<lambda>c. \<not> is_surrogate c) t = [])"
    unfolding utf8_encode_error_def Let_def by (rule case_list_None)
  also have "\<dots> = encodable t"
    by (simp add: dropWhile_eq_Nil_conv encodable_def list_ex_iff)
  finally show ?thesis .
qed

lemma writelines_encodable: "list_all encodable ls \<Longrightarrow> writelines ls = (concat ls, None)"
  by (induction ls) (simp_all add: utf8_encode_error_None [symmetric])

lemma writelines_refused: "\<not> list_all encodable ls \<Longrightarrow> \<exists>d e. writelines ls = (d, Some e)"
proof (induction ls)
  case Nil
  then show ?case by simp
next
  case (Cons l ls)
  show ?case
  proof (cases "utf8_encode_error l")
    case None
    with Cons.prems have "\<not> list_all encodable ls" by (simp add: utf8_encode_error_None)
    from Cons.IH [OF this] None show ?thesis by auto
  next
    case (Some e)
    then show ?thesis by simp
  qed
qed

lemma writelines_None:
  assumes "writelines ls = (d, None)"
  shows "list_all encodable ls \<and> d = concat ls"
proof (cases "list_all encodable ls")
  case True
  with assms writelines_encodable [OF True] show ?thesis by simp
next
  case False
  from writelines_refused [OF this] assms show ?thesis by auto
qed

lemma open_append_error_None:
  "(open_append_error rt io s p = None) = (open_a_fault io = None \<and> store_opens rt s p)"
  by (auto simp: open_append_error_def store_opens_def split: option.splits)

lemma append_lines_Inr:
  assumes "append_lines rt io s p ls = (Inr u, s')" and "concat ls \<noteq> []"
  shows "list_all encodable ls \<and> s' = put_file rt io s p (file_text s (file_id rt p) @ concat ls)"
proof -
  obtain d r where w: "writelines ls = (d, r)" by (cases "writelines ls")
  from assms(1) w have "r = None" and s': "s' = store_text rt io s p d"
    by (auto simp: append_lines_def split: option.splits prod.splits)
  with w have "writelines ls = (d, None)" by simp
  from writelines_None [OF this] have e: "list_all encodable ls" and d: "d = concat ls" by simp_all
  from s' d assms(2) have "s' = put_file rt io s p (file_text s (file_id rt p) @ concat ls)"
    by (auto simp: store_text_def)
  with e show ?thesis by simp
qed

lemma append_lines_quiet:
  assumes "open_a_fault io = None" and "write_a_fault io = None"
      and "store_opens rt s p" and "list_all encodable ls" and "concat ls \<noteq> []"
  shows "append_lines rt io s p ls
           = (Inr (), put_file rt io s p (file_text s (file_id rt p) @ concat ls))"
proof -
  from assms(1,3) have "open_append_error rt io s p = None" by (simp add: open_append_error_None)
  with assms(2,5) writelines_encodable [OF assms(4)] show ?thesis
    by (auto simp: append_lines_def store_text_def)
qed

lemma append_lines_state:
  "snd (append_lines rt io s p ls) = s \<or> (\<exists>d. snd (append_lines rt io s p ls) = put_file rt io s p d)"
  by (auto simp: append_lines_def store_text_def split: option.splits prod.splits)

section \<open>Facts about a call\<close>

lemma write_report_Ok:
  assumes "write_report rt io s n raw rf = (Ok p, s')"
  shows "p = store_path rt rf \<and>
         (\<exists>obj ls. json_loads rt raw = Inr obj \<and> block_lines rt n obj (ascii (now io)) = Inr ls \<and>
            list_all encodable ls \<and>
            s' = put_file rt io (prepared rt io s) p
                   (file_text (prepared rt io s) (file_id rt p) @ concat ls))"
proof -
  from assms obtain obj ls u where
    p: "p = store_path rt rf" and l: "json_loads rt raw = Inr obj" and
    b: "block_lines rt n obj (ascii (now io)) = Inr ls" and
    a: "append_lines rt io (prepared rt io s) p ls = (Inr u, s')"
    by (auto simp: write_report_def write_report_body_def Let_def prepared_def store_path_def
        split: prod.splits sum.splits)
  from append_lines_Inr [OF a block_lines_not_empty [OF b]] p l b show ?thesis by blast
qed

lemma write_report_no_faults:
  assumes "no_faults io"
  shows "write_report rt io s n raw rf =
     (case json_loads rt raw of
        Inl e \<Rightarrow> (Err (exn_str e), prepared rt io s)
      | Inr obj \<Rightarrow>
          (case block_lines rt n obj (ascii (now io)) of
             Inl e \<Rightarrow> (Err (exn_str e), prepared rt io s)
           | Inr ls \<Rightarrow>
               (case append_lines rt io (prepared rt io s) (store_path rt rf) ls of
                  (Inl e, s3) \<Rightarrow> (Err (exn_str e), s3)
                | (Inr u, s3) \<Rightarrow> (Ok (store_path rt rf), s3))))"
  using assms
  by (auto simp: no_faults_def write_report_def write_report_body_def Let_def prepared_def
      store_path_def ensure_reports_dir_def os_makedirs_def generate_test_suites_file_def
      os_utime_def write_new_def
      split: prod.splits sum.splits option.splits)

lemma write_report_quiet:
  assumes "no_faults io" and "json_loads rt raw = Inr obj"
      and "block_lines rt n obj (ascii (now io)) = Inr ls" and "list_all encodable ls"
      and "store_opens rt (prepared rt io s) (store_path rt rf)"
  shows "write_report rt io s n raw rf =
           (Ok (store_path rt rf),
            put_file rt io (prepared rt io s) (store_path rt rf)
              (file_text (prepared rt io s) (file_id rt (store_path rt rf)) @ concat ls))"
proof -
  from assms(1) have "open_a_fault io = None" and "write_a_fault io = None"
    by (simp_all add: no_faults_def)
  from append_lines_quiet [OF this assms(5,4) block_lines_not_empty [OF assms(3)]]
  show ?thesis by (simp add: write_report_no_faults [OF assms(1)] assms(2,3))
qed

lemma write_report_refused:
  assumes "no_faults io" and "json_loads rt raw = Inr obj"
      and "block_lines rt n obj (ascii (now io)) = Inr ls" and "\<not> list_all encodable ls"
  shows "\<exists>m. fst (write_report rt io s n raw rf) = Err m"
proof -
  from writelines_refused [OF assms(4)] obtain d e where "writelines ls = (d, Some e)" by blast
  then show ?thesis
    by (simp add: write_report_no_faults [OF assms(1)] assms(2,3) append_lines_def
        split: option.splits prod.splits)
qed

lemma write_report_unopened:
  assumes "no_faults io" and "\<not> store_opens rt (prepared rt io s) (store_path rt rf)"
  shows "\<exists>m. fst (write_report rt io s n raw rf) = Err m"
proof -
  from assms(2) obtain e where
    "open_append_error rt io (prepared rt io s) (store_path rt rf) = Some e"
    using open_append_error_None by (cases "open_append_error rt io (prepared rt io s) (store_path rt rf)") auto
  then show ?thesis
    by (simp add: write_report_no_faults [OF assms(1)] append_lines_def
        split: sum.splits)
qed

section \<open>Facts about the concrete environment\<close>

lemma prepared_no_faults:
  assumes "no_faults io"
  shows "prepared rt io s =
     (let s1 = s\<lparr>dirs := insert (file_id rt (reports_dir rt)) (dirs s)\<rparr> in
      if path_exists rt s1 (suites_path rt)
      then (case files s (file_id rt (suites_path rt)) of
              None \<Rightarrow> s1
            | Some f \<Rightarrow> s1\<lparr>files := (files s)(file_id rt (suites_path rt) \<mapsto> f\<lparr>mtime := clock io\<rparr>)\<rparr>)
      else put_file rt io s1 (suites_path rt) suites_stub)"
  using assms
  by (simp add: no_faults_def prepared_def ensure_reports_dir_def os_makedirs_def
      generate_test_suites_file_def os_utime_def write_new_def Let_def split: option.splits)

lemma dirs_prepared:
  assumes "no_faults io"
  shows "dirs (prepared rt io s) = insert (file_id rt (reports_dir rt)) (dirs s)"
  by (simp add: prepared_no_faults [OF assms] Let_def dirs_put_file split: option.splits)

lemmas example_defs =
  example_runtime_def example_loads_def quiet_def empty_fs_def ascii_def path_join_def isabs_def
  results_path_def suites_path_def reports_dir_def store_path_def verdict_text_def
  skipped_text_def checks5_text_def not_json_def ok_no_text_def surrogate_text_def

lemma no_faults_quiet: "no_faults (quiet t)"
  by (simp add: no_faults_def quiet_def)

lemma now_quiet: "ascii (now (quiet t)) = ascii ''2026-01-01 00:00:00''"
  by (simp add: quiet_def)

lemma prepared_example:
  "prepared example_runtime (quiet t) empty_fs =
     \<lparr>dirs = {ascii ''/repo/test_reports''},
      files = (\<lambda>i. None)(ascii ''/repo/test_suites.md'' \<mapsto> \<lparr>content = suites_stub, mtime = t\<rparr>)\<rparr>"
  by (subst prepared_no_faults [OF no_faults_quiet])
     (simp add: path_exists_def put_file_def Let_def example_defs)

lemma loads_empty_object: "json_loads example_runtime (ascii ''{}'') = Inr (PDict [])"
  by (simp add: example_defs)

lemma loads_skipped:
  "json_loads example_runtime skipped_text = Inr (PDict [(ascii ''status'', PStr (ascii ''SKIPPED''))])"
  by (simp add: example_defs)

lemma loads_checks5:
  "json_loads example_runtime checks5_text = Inr (PDict [(ascii ''checks'', PInt 5)])"
  by (simp add: example_defs)

lemma loads_ok_no: "json_loads example_runtime ok_no_text = Inr ok_no_obj"
  by (simp add: example_defs)

lemma loads_surrogate:
  "json_loads example_runtime surrogate_text = Inr (PDict [(ascii ''status'', PStr [55296])])"
  by (simp add: example_defs)

lemma loads_not_json:
  "json_loads example_runtime not_json = Inl (JSONDecodeError
     (ascii ''Expecting property name enclosed in double quotes: line 1 column 2 (char 1)''))"
  by (simp add: example_defs)

lemma well_shaped_examples:
  "well_shaped (PDict [])" "well_shaped (PDict [(ascii ''status'', PStr (ascii ''SKIPPED''))])"
  by (simp_all add: well_shaped_def dict_get_def ascii_def)

lemma example_paths:
  "store_path example_runtime None = ascii ''/repo/test_reports/results.md''"
  "suites_path example_runtime = ascii ''/repo/test_suites.md''"
  "reports_dir example_runtime = ascii ''/repo/test_reports''"
  "file_id example_runtime (ascii ''/repo/test_reports/results.md'') = ascii ''/repo/test_reports/results.md''"
  "file_id example_runtime (ascii ''/repo/test_suites.md'') = ascii ''/repo/test_suites.md''"
  "file_id example_runtime (ascii ''/repo/test_reports'') = ascii ''/repo/test_reports''"
  "file_id example_runtime (ascii ''out.md'') = ascii ''/work/out.md''"
  by (simp_all add: example_defs)

lemma example_paths_distinct:
  "ascii ''/repo/test_reports/results.md'' \<noteq> ascii ''/repo/test_suites.md''"
  "ascii ''/work/out.md'' \<noteq> ascii ''/repo/test_suites.md''"
  "ascii ''/work/out.md'' \<noteq> ascii ''out.md''"
  "ascii ''/repo/test_reports/results.md'' \<noteq> ascii ''/repo/test_reports''"
  "ascii ''/repo/test_suites.md'' \<noteq> ascii ''/repo/test_reports''"
  "ascii ''/work/out.md'' \<noteq> ascii ''/repo/test_reports''"
  by (simp_all add: ascii_def)

lemma fs_encode_error_ascii: "fs_encode_error (ascii cs) = None"
proof -
  have "\<not> unescapable c" if "c \<in> set (ascii cs)" for c
  proof -
    from that have "encodable [c]"
      using encodable_ascii [of cs] by (auto simp: encodable_def list_ex_iff)
    then show ?thesis by (simp add: unescapable_def encodable_def)
  qed
  then have "dropWhile (\<lambda>c. \<not> unescapable c) (ascii cs) = []"
    by (simp add: dropWhile_eq_Nil_conv)
  moreover have "(fs_encode_error (ascii cs) = None) = (dropWhile (\<lambda>c. \<not> unescapable c) (ascii cs) = [])"
    unfolding fs_encode_error_def Let_def by (rule case_list_None)
  ultimately show ?thesis by blast
qed

lemma store_opens_ascii:
  assumes "cs \<noteq> []" and "0 \<notin> set (ascii cs)" and "file_id rt (ascii cs) \<notin> dirs s"
  shows "store_opens rt s (ascii cs)"
proof -
  from assms(1) have "ascii cs \<noteq> []" by (simp add: ascii_def)
  with assms(2,3) show ?thesis by (simp add: store_opens_def fs_encode_error_ascii)
qed

lemma store_opens_results:
  assumes "no_faults io" and "ascii ''/repo/test_reports/results.md'' \<notin> dirs s"
  shows "store_opens example_runtime (prepared example_runtime io s) (ascii ''/repo/test_reports/results.md'')"
  by (rule store_opens_ascii)
     (simp_all add: dirs_prepared [OF assms(1)] example_paths example_paths_distinct assms(2),
      simp add: ascii_def)

lemma store_opens_suites:
  assumes "no_faults io" and "ascii ''/repo/test_suites.md'' \<notin> dirs s"
  shows "store_opens example_runtime (prepared example_runtime io s) (ascii ''/repo/test_suites.md'')"
  by (rule store_opens_ascii)
     (simp_all add: dirs_prepared [OF assms(1)] example_paths example_paths_distinct assms(2),
      simp add: ascii_def)

lemma store_opens_out:
  assumes "no_faults io" and "ascii ''/work/out.md'' \<notin> dirs s"
  shows "store_opens example_runtime (prepared example_runtime io s) (ascii ''out.md'')"
  by (rule store_opens_ascii)
     (simp_all add: dirs_prepared [OF assms(1)] example_paths example_paths_distinct assms(2),
      simp add: ascii_def)

lemma dirs_examples:
  "dirs empty_fs = {}" "dirs catalog_fs = {}"
  by (simp_all add: empty_fs_def catalog_fs_def dirs_put_file)

lemma empty_object_block:
  assumes "encodable n"
  shows "\<exists>ls. block_lines rt n (PDict []) (ascii tm) = Inr ls \<and> list_all encodable ls"
  using assms by (simp add: block_lines_def dict_get_def Let_def encodable_simps)

section \<open>Shape deviations of a decoded verdict\<close>

text \<open>
  The decoded value of the valid JSON text \<open>{"checks":5}\<close> has a number where the
  list of checks should be: the loop over the checks raises, and \<open>write_report\<close>
  returns a failure result although the text was parsed and no system call failed.
\<close>

theorem shape_error_counterexample:
  "json_loads example_runtime checks5_text = Inr (PDict [(ascii ''checks'', PInt 5)]) \<and>
   fst (write_report example_runtime (quiet 0) empty_fs (ascii ''T'') checks5_text None)
     = Err ([39] @ ascii ''int'' @ [39] @ ascii '' object is not iterable'')"
proof -
  have b: "block_lines example_runtime (ascii ''T'') (PDict [(ascii ''checks'', PInt 5)]) (ascii (now (quiet 0)))
      = Inl (not_iterable (PInt 5))"
    by (simp add: block_lines_def dict_get_def ascii_def Let_def)
  show ?thesis
    by (simp add: write_report_no_faults [OF no_faults_quiet] loads_checks5 b not_iterable_def)
qed

text \<open>
  A status that is a lone surrogate, from the valid JSON text with the escape
  \<open>\ud800\<close>: the value is well shaped, the store file is opened (and so created), and
  the first line is refused by the UTF-8 codec.
\<close>

lemma surrogate_lines:
  "block_lines example_runtime (ascii ''T'') (PDict [(ascii ''status'', PStr [55296])]) (ascii (now (quiet 0)))
      = Inr [ascii ''## T'' @ [32, em_dash, 32, 55296, 10],
             ascii ''- When: 2026-01-01 00:00:00'' @ [10],
             ascii ''- URL: '' @ [10], ascii ''- Title: '' @ [10], ascii ''- Checks:'' @ [10], separator]"
  by (simp add: block_lines_def dict_get_def ascii_def Let_def quiet_def)

lemma surrogate_status_is_refused:
  "write_report example_runtime (quiet 0) empty_fs (ascii ''T'') surrogate_text None =
     (Err ([39] @ ascii ''utf-8'' @ [39] @ ascii '' codec can'' @ [39] @ ascii ''t encode character ''
           @ [39, 92] @ ascii ''ud800'' @ [39] @ ascii '' in position 7: surrogates not allowed''),
      put_file example_runtime (quiet 0) (prepared example_runtime (quiet 0) empty_fs)
        (ascii ''/repo/test_reports/results.md'') [])"
proof -
  note b = surrogate_lines
  have o: "open_append_error example_runtime (quiet 0) (prepared example_runtime (quiet 0) empty_fs)
             (ascii ''/repo/test_reports/results.md'') = None"
    using store_opens_results [OF no_faults_quiet, of empty_fs 0] no_faults_quiet [of 0]
    by (simp add: open_append_error_None no_faults_def dirs_examples)
  have l7: "length (ascii ''## T'' @ [32, em_dash, 32]) = 7" by (simp add: ascii_def)
  have pre: "takeWhile (\<lambda>c. \<not> is_surrogate c) (ascii ''## T'' @ [32, em_dash, 32, 55296, 10])
      = ascii ''## T'' @ [32, em_dash, 32]"
    and rest: "dropWhile (\<lambda>c. \<not> is_surrogate c) (ascii ''## T'' @ [32, em_dash, 32, 55296, 10])
      = [55296, 10]"
    by (simp_all add: is_surrogate_def ascii_def em_dash_def)
  have run: "length (takeWhile is_surrogate [55296, 10]) = 1" by (simp add: is_surrogate_def)
  have u: "utf8_encode_error (ascii ''## T'' @ [32, em_dash, 32, 55296, 10])
      = Some (cannot_encode 55296 7 8)"
    unfolding utf8_encode_error_def Let_def pre rest l7 run by simp
  have four: "(4::nat) = Suc (Suc (Suc (Suc 0)))" by simp
  have h: "hex_fixed 4 55296 = ascii ''d800''"
    unfolding four by (simp add: hexdigit_def ascii_def)
  have d: "dec_nat 7 = ascii ''7''"
    by (simp add: dec_nat.simps ascii_def)
  have c: "cannot_encode 55296 7 8 =
      UnicodeError ([39] @ ascii ''utf-8'' @ [39] @ ascii '' codec can'' @ [39]
           @ ascii ''t encode character '' @ [39, 92] @ ascii ''ud800'' @ [39]
           @ ascii '' in position 7: surrogates not allowed'')"
    by (simp add: cannot_encode_def h d) (simp add: ascii_def)
  have f: "files (prepared example_runtime (quiet 0) empty_fs) (ascii ''/repo/test_reports/results.md'') = None"
    by (simp add: prepared_example ascii_def)
  have w: "write_a_fault (quiet 0) = None" by (simp add: quiet_def)
  show ?thesis
    by (simp add: write_report_no_faults [OF no_faults_quiet] loads_surrogate b example_paths
        append_lines_def o u c w store_text_def f file_text_def)
qed

text \<open>
  Claim C1, as the code has it. Let no system call fail and let the report path be
  one that can be opened. Then \<open>write_report\<close> returns a success result exactly when
  the text is decoded, the decoded value is well shaped (a dict whose \<open>artifacts\<close>, if
  present, is a dict and whose \<open>checks\<close>, if present, is iterable with dicts only as
  elements) and the block it formats can be encoded in UTF-8, that is, holds no
  surrogate. Missing keys and extra keys are absorbed by the defaults; a text that is
  not decoded, a decoded value of another shape and a block with a surrogate give a
  failure result.
\<close>

theorem write_report_succeeds_iff_well_shaped:
  assumes "no_faults io" and "store_opens rt (prepared rt io s) (store_path rt rf)"
  shows "(\<exists>p. fst (write_report rt io s n raw rf) = Ok p)
           = (\<exists>obj. json_loads rt raw = Inr obj \<and> well_shaped obj \<and>
                    encodable (block_text rt (io, n, raw, rf)))"
proof (cases "json_loads rt raw")
  case (Inl e)
  then show ?thesis by (simp add: write_report_no_faults [OF assms(1)])
next
  case (Inr obj)
  show ?thesis
  proof (cases "block_lines rt n obj (ascii (now io))")
    case (Inl e)
    with block_lines_well_shaped [of rt n obj "ascii (now io)"] have "\<not> well_shaped obj" by simp
    with Inl Inr show ?thesis by (simp add: write_report_no_faults [OF assms(1)])
  next
    case r: (Inr ls)
    with block_lines_well_shaped [of rt n obj "ascii (now io)"] have w: "well_shaped obj" by auto
    show ?thesis
    proof (cases "list_all encodable ls")
      case True
      from write_report_quiet [OF assms(1) Inr r True assms(2)] w True Inr show ?thesis
        by (simp add: r encodable_concat)
    next
      case False
      from write_report_refused [OF assms(1) Inr r False, of s rf] False Inr show ?thesis
        by (auto simp: r encodable_concat)
    qed
  qed
qed

theorem write_report_succeeds_iff_well_shaped_witness:
  "no_faults (quiet 0) \<and>
   store_opens example_runtime (prepared example_runtime (quiet 0) empty_fs) (store_path example_runtime None) \<and>
   json_loads example_runtime (ascii ''{}'') = Inr (PDict []) \<and>
   well_shaped (PDict []) \<and>
   encodable (block_text example_runtime (quiet 0, ascii ''T'', ascii ''{}'', None)) \<and>
   (\<exists>p. fst (write_report example_runtime (quiet 0) empty_fs (ascii ''T'') (ascii ''{}'') None) = Ok p) \<and>
   \<not> encodable (block_text example_runtime (quiet 0, ascii ''T'', surrogate_text, None)) \<and>
   \<not> (\<exists>p. fst (write_report example_runtime (quiet 0) empty_fs (ascii ''T'') surrogate_text None) = Ok p)"
proof -
  have o: "store_opens example_runtime (prepared example_runtime (quiet 0) empty_fs) (store_path example_runtime None)"
    using store_opens_results [OF no_faults_quiet, of empty_fs 0]
    by (simp add: example_paths dirs_examples)
  obtain ls where b: "block_lines example_runtime (ascii ''T'') (PDict []) (ascii (now (quiet 0))) = Inr ls"
    and e: "list_all encodable ls"
    using empty_object_block [OF encodable_ascii] by blast
  have e1: "encodable (block_text example_runtime (quiet 0, ascii ''T'', ascii ''{}'', None))"
    by (simp add: loads_empty_object b e encodable_concat)
  have e2: "\<not> encodable (block_text example_runtime (quiet 0, ascii ''T'', surrogate_text, None))"
    by (simp add: loads_surrogate surrogate_lines encodable_simps)
  from write_report_succeeds_iff_well_shaped
         [OF no_faults_quiet o, of "ascii ''T''" "ascii ''{}''"] loads_empty_object well_shaped_examples(1) e1
  have 1: "\<exists>p. fst (write_report example_runtime (quiet 0) empty_fs (ascii ''T'') (ascii ''{}'') None) = Ok p"
    by simp
  from write_report_succeeds_iff_well_shaped
         [OF no_faults_quiet o, of "ascii ''T''" surrogate_text] e2
  have 2: "\<not> (\<exists>p. fst (write_report example_runtime (quiet 0) empty_fs (ascii ''T'') surrogate_text None) = Ok p)"
    by simp
  from no_faults_quiet o loads_empty_object well_shaped_examples(1) e1 1 e2 2 show ?thesis by blast
qed

section \<open>The status in the heading\<close>

text \<open>
  The verdict \<open>{"status":"SKIPPED"}\<close> has a status that is neither \<open>PASS\<close> nor
  \<open>FAIL\<close>. The call succeeds and the heading of the block it appends to the empty
  store shows \<open>SKIPPED\<close>, not \<open>UNKNOWN\<close>.
\<close>

theorem unrecognized_status_counterexample:
  "json_loads example_runtime skipped_text = Inr (PDict [(ascii ''status'', PStr (ascii ''SKIPPED''))]) \<and>
   (case write_report example_runtime (quiet 0) empty_fs (ascii ''T'') skipped_text None of
      (r, s') \<Rightarrow>
        r = Ok (ascii ''/repo/test_reports/results.md'') \<and>
        file_text s' (ascii ''/repo/test_reports/results.md'') =
          ascii ''## T '' @ [em_dash] @ ascii '' SKIPPED'' @ [10]
          @ ascii ''- When: 2026-01-01 00:00:00'' @ [10]
          @ ascii ''- URL: '' @ [10]
          @ ascii ''- Title: '' @ [10]
          @ ascii ''- Checks:'' @ [10]
          @ separator)"
proof -
  have l: "json_loads example_runtime skipped_text = Inr (PDict [(ascii ''status'', PStr (ascii ''SKIPPED''))])"
    by (simp add: example_defs)
  have b: "block_lines example_runtime (ascii ''T'') (PDict [(ascii ''status'', PStr (ascii ''SKIPPED''))]) (ascii (now (quiet 0)))
      = Inr [ascii ''## T '' @ [em_dash] @ ascii '' SKIPPED'' @ [10],
             ascii ''- When: 2026-01-01 00:00:00'' @ [10],
             ascii ''- URL: '' @ [10], ascii ''- Title: '' @ [10], ascii ''- Checks:'' @ [10], separator]"
    by (simp add: block_lines_def dict_get_def ascii_def Let_def quiet_def)
  have p: "store_path example_runtime None = ascii ''/repo/test_reports/results.md''"
    by (simp add: example_defs)
  have i: "file_id example_runtime (ascii ''/repo/test_reports/results.md'') = ascii ''/repo/test_reports/results.md''"
    by (simp add: example_defs)
  have t: "file_text (prepared example_runtime (quiet 0) empty_fs) (ascii ''/repo/test_reports/results.md'') = []"
    by (simp add: prepared_example file_text_def ascii_def)
  have e: "list_all encodable
             [ascii ''## T '' @ [em_dash] @ ascii '' SKIPPED'' @ [10],
              ascii ''- When: 2026-01-01 00:00:00'' @ [10],
              ascii ''- URL: '' @ [10], ascii ''- Title: '' @ [10], ascii ''- Checks:'' @ [10], separator]"
    by (simp add: encodable_simps)
  have o: "store_opens example_runtime (prepared example_runtime (quiet 0) empty_fs) (store_path example_runtime None)"
    using store_opens_results [OF no_faults_quiet, of empty_fs 0] by (simp add: p dirs_examples)
  show ?thesis
    by (simp add: write_report_quiet [OF no_faults_quiet l b e o] l p i t file_text_put_file)
qed

text \<open>
  Claim C2, as the code has it. The block a successful call appends begins with the
  heading of the test name, an em dash and the status, where the status is the value of the
  field \<open>status\<close> as the f-string renders it: a string as it is, whatever it says,
  another value by its \<open>repr\<close>; it is \<open>UNKNOWN\<close> when the field is absent.
\<close>

theorem heading_shows_status_field:
  assumes "write_report rt io s n raw rf = (Ok p, s')"
  shows "\<exists>kvs rest. json_loads rt raw = Inr (PDict kvs) \<and>
     file_text s' (file_id rt p) =
       file_text (prepared rt io s) (file_id rt p)
       @ ascii ''## '' @ n @ [32, em_dash, 32] @ status_shown (isprintable rt) kvs @ [10] @ rest"
proof -
  from write_report_Ok [OF assms] obtain obj ls where
    l: "json_loads rt raw = Inr obj" and b: "block_lines rt n obj (ascii (now io)) = Inr ls" and
    s: "s' = put_file rt io (prepared rt io s) p (file_text (prepared rt io s) (file_id rt p) @ concat ls)"
    by blast
  from block_lines_dict [OF b] obtain kvs tl where o: "obj = PDict kvs" and
    ls: "ls = (ascii ''## '' @ n @ [32, em_dash, 32] @ py_str (isprintable rt) (dict_get kvs (ascii ''status'') (PStr (ascii ''UNKNOWN''))) @ [10]) # tl"
    by auto
  have "file_text s' (file_id rt p) = file_text (prepared rt io s) (file_id rt p)
       @ ascii ''## '' @ n @ [32, em_dash, 32] @ status_shown (isprintable rt) kvs @ [10] @ concat tl"
    by (simp add: s ls file_text_put_file status_shown_get)
  with l o show ?thesis by blast
qed

theorem heading_shows_status_field_witness:
  "fst (write_report example_runtime (quiet 0) empty_fs (ascii ''T'') (ascii ''{}'') None)
      = Ok (ascii ''/repo/test_reports/results.md'') \<and>
   status_shown (\<lambda>c. True) [] = ascii ''UNKNOWN'' \<and>
   (\<exists>rest. file_text (snd (write_report example_runtime (quiet 0) empty_fs (ascii ''T'') (ascii ''{}'') None))
        (ascii ''/repo/test_reports/results.md'')
      = ascii ''## T '' @ [em_dash] @ ascii '' UNKNOWN'' @ [10] @ rest)"
proof -
  let ?w = "write_report example_runtime (quiet 0) empty_fs (ascii ''T'') (ascii ''{}'') None"
  have l: "json_loads example_runtime (ascii ''{}'') = Inr (PDict [])"
    by (simp add: example_defs)
  obtain ls where b: "block_lines example_runtime (ascii ''T'') (PDict []) (ascii (now (quiet 0))) = Inr ls"
    and enc: "list_all encodable ls"
    using empty_object_block [OF encodable_ascii] by blast
  have p: "store_path example_runtime None = ascii ''/repo/test_reports/results.md''"
    by (simp add: example_defs)
  have o: "store_opens example_runtime (prepared example_runtime (quiet 0) empty_fs) (store_path example_runtime None)"
    using store_opens_results [OF no_faults_quiet, of empty_fs 0] by (simp add: p dirs_examples)
  have f: "fst ?w = Ok (ascii ''/repo/test_reports/results.md'')"
    by (simp add: write_report_quiet [OF no_faults_quiet l b enc o] p)
  then have e: "?w = (Ok (ascii ''/repo/test_reports/results.md''), snd ?w)"
    by (metis prod.collapse)
  have i: "file_id example_runtime (ascii ''/repo/test_reports/results.md'') = ascii ''/repo/test_reports/results.md''"
    by (simp add: example_defs)
  have t: "file_text (prepared example_runtime (quiet 0) empty_fs) (ascii ''/repo/test_reports/results.md'') = []"
    by (simp add: prepared_example file_text_def ascii_def)
  have u: "status_shown (\<lambda>c. True) [] = ascii ''UNKNOWN''" by (simp add: status_shown_def)
  have pr: "isprintable example_runtime = (\<lambda>c. True)" by (simp add: example_runtime_def)
  from heading_shows_status_field [OF e] l i t u pr
  have "\<exists>rest. file_text (snd ?w) (ascii ''/repo/test_reports/results.md'')
      = ascii ''## T '' @ [em_dash] @ ascii '' UNKNOWN'' @ [10] @ rest"
    by (auto simp: ascii_def)
  with f u show ?thesis by blast
qed

section \<open>Facts about a run of calls\<close>

lemma write_report_state:
  "snd (write_report rt io s n raw rf) = s \<or>
   snd (write_report rt io s n raw rf) = snd (ensure_reports_dir rt io s) \<or>
   snd (write_report rt io s n raw rf) = prepared rt io s \<or>
   (\<exists>d. snd (write_report rt io s n raw rf) = put_file rt io (prepared rt io s) (store_path rt rf) d)"
proof -
  have "snd (write_report rt io s n raw rf) = s \<or>
        snd (write_report rt io s n raw rf) = snd (ensure_reports_dir rt io s) \<or>
        snd (write_report rt io s n raw rf) = prepared rt io s \<or>
        (\<exists>ls. snd (write_report rt io s n raw rf)
                = snd (append_lines rt io (prepared rt io s) (store_path rt rf) ls))"
    apply (auto simp: write_report_def write_report_body_def Let_def prepared_def
        store_path_def split: prod.splits sum.splits option.splits)
    apply (metis snd_conv)+
    done
  then show ?thesis using append_lines_state by metis
qed

lemma write_report_frame:
  assumes "i \<noteq> file_id rt (suites_path rt)" and "i \<noteq> file_id rt (store_path rt rf)"
  shows "files (snd (write_report rt io s n raw rf)) i = files s i"
  using write_report_state [of rt io s n raw rf] assms
  by (auto simp: ensure_files prepared_frame files_put_file)

lemma write_report_parse_error:
  assumes "json_loads rt raw = Inl e"
  shows "(\<exists>m. fst (write_report rt io s n raw rf) = Err m) \<and>
         (snd (write_report rt io s n raw rf) = snd (ensure_reports_dir rt io s) \<or>
          snd (write_report rt io s n raw rf) = prepared rt io s)"
  using assms
  by (auto simp: write_report_def write_report_body_def Let_def prepared_def
      ensure_reports_dir_def os_makedirs_def
      split: prod.splits sum.splits option.splits)

lemma write_report_store_Ok:
  assumes "write_report rt io s n raw rf = (Ok p, s')"
      and "file_id rt (store_path rt rf) \<noteq> file_id rt (suites_path rt)"
  shows "file_text s' (file_id rt (store_path rt rf))
           = file_text s (file_id rt (store_path rt rf)) @ block_text rt (io, n, raw, rf)"
proof -
  from write_report_Ok [OF assms(1)] obtain obj ls where
    p: "p = store_path rt rf" and
    l: "json_loads rt raw = Inr obj" and b: "block_lines rt n obj (ascii (now io)) = Inr ls" and
    s: "s' = put_file rt io (prepared rt io s) p (file_text (prepared rt io s) (file_id rt p) @ concat ls)"
    by blast
  show ?thesis
    by (simp add: s p l b file_text_put_file file_text_prepared [OF assms(2)])
qed

lemma run_calls_take:
  "fst (run_calls rt s (take k cs)) = take k (fst (run_calls rt s cs))"
proof (induction cs arbitrary: k s)
  case Nil
  then show ?case by simp
next
  case (Cons c cs)
  obtain io n raw rf where c: "c = (io, n, raw, rf)" by (cases c) auto
  show ?case
  proof (cases k)
    case 0
    then show ?thesis by simp
  next
    case (Suc j)
    with Cons.IH [of "snd (write_report rt io s n raw rf)" j] show ?thesis
      by (auto simp: c split: prod.splits)
  qed
qed

lemma run_calls_append:
  assumes "\<forall>c\<in>set cs. call_store rt c = sid"
      and "sid \<noteq> file_id rt (suites_path rt)"
      and "list_all is_Ok (fst (run_calls rt s cs))"
  shows "file_text (snd (run_calls rt s cs)) sid = file_text s sid @ concat (map (block_text rt) cs)"
  using assms
proof (induction cs arbitrary: s)
  case Nil
  then show ?case by simp
next
  case (Cons c cs)
  obtain io n raw rf where c: "c = (io, n, raw, rf)" by (cases c) auto
  obtain r s1 where w: "write_report rt io s n raw rf = (r, s1)" by (cases "write_report rt io s n raw rf")
  obtain rs s2 where rc: "run_calls rt s1 cs = (rs, s2)" by (cases "run_calls rt s1 cs")
  from Cons.prems(3) c w rc have ok: "is_Ok r" and oks: "list_all is_Ok (fst (run_calls rt s1 cs))"
    by simp_all
  from ok obtain p where r: "r = Ok p" by (cases r) auto
  from Cons.prems(1) c have sid: "file_id rt (store_path rt rf) = sid" by simp
  from write_report_store_Ok [of rt io s n raw rf p s1] w r sid Cons.prems(2)
  have one: "file_text s1 sid = file_text s sid @ block_text rt (io, n, raw, rf)" by simp
  from Cons.prems(1) have "\<forall>c\<in>set cs. call_store rt c = sid" by simp
  from Cons.IH [OF this Cons.prems(2) oks] rc
  have "file_text s2 sid = file_text s1 sid @ concat (map (block_text rt) cs)" by simp
  with one show ?case by (simp add: c w rc)
qed

lemma write_report_is_Ok:
  assumes "no_faults io" and "json_loads rt raw = Inr obj"
      and "block_lines rt n obj (ascii (now io)) = Inr ls" and "list_all encodable ls"
      and "store_opens rt (prepared rt io s) (store_path rt rf)"
  shows "is_Ok (fst (write_report rt io s n raw rf))"
  by (simp add: write_report_quiet [OF assms])

lemma dirs_write_report:
  assumes "no_faults io"
  shows "dirs (snd (write_report rt io s n raw rf)) = insert (file_id rt (reports_dir rt)) (dirs s)"
proof -
  have "dirs s3 = dirs (prepared rt io s)"
    if "append_lines rt io (prepared rt io s) p ls = (r, s3)" for p ls r s3
    using append_lines_state [of rt io "prepared rt io s" p ls] that by (auto simp: dirs_put_file)
  then show ?thesis
    by (auto simp: write_report_no_faults [OF assms] dirs_prepared [OF assms]
        split: sum.splits prod.splits)
qed

lemma run_calls_Cons_fst:
  "fst (run_calls rt s ((io, n, raw, rf) # cs)) =
     fst (write_report rt io s n raw rf) # fst (run_calls rt (snd (write_report rt io s n raw rf)) cs)"
  by (simp split: prod.splits)

section \<open>The store after a run of calls\<close>

text \<open>
  A call whose report path names the catalog file: the store does not exist before
  the call, the call succeeds, and the file then holds the stub of the catalog
  followed by the block, not the block alone.
\<close>

theorem store_is_catalog_counterexample:
  "files empty_fs (ascii ''/repo/test_suites.md'') = None \<and>
   (case run_calls example_runtime empty_fs
           [(quiet 0, ascii ''T'', ascii ''{}'', Some (ascii ''/repo/test_suites.md''))] of
      (rs, s') \<Rightarrow>
        rs = [Ok (ascii ''/repo/test_suites.md'')] \<and>
        file_text s' (ascii ''/repo/test_suites.md'') =
          suites_stub @ block_text example_runtime (quiet 0, ascii ''T'', ascii ''{}'', Some (ascii ''/repo/test_suites.md'')) \<and>
        file_text s' (ascii ''/repo/test_suites.md'') \<noteq>
          block_text example_runtime (quiet 0, ascii ''T'', ascii ''{}'', Some (ascii ''/repo/test_suites.md'')))"
proof -
  note l = loads_empty_object
  obtain ls where b: "block_lines example_runtime (ascii ''T'') (PDict []) (ascii (now (quiet 0))) = Inr ls"
    and enc: "list_all encodable ls"
    using empty_object_block [OF encodable_ascii] by blast
  have p: "store_path example_runtime (Some (ascii ''/repo/test_suites.md'')) = ascii ''/repo/test_suites.md''"
    by (simp add: store_path_def)
  have o: "store_opens example_runtime (prepared example_runtime (quiet 0) empty_fs)
             (store_path example_runtime (Some (ascii ''/repo/test_suites.md'')))"
    using store_opens_suites [OF no_faults_quiet, of empty_fs 0] by (simp add: p dirs_examples)
  have i: "file_id example_runtime (ascii ''/repo/test_suites.md'') = ascii ''/repo/test_suites.md''"
    by (simp add: example_defs)
  have t: "file_text (prepared example_runtime (quiet 0) empty_fs) (ascii ''/repo/test_suites.md'') = suites_stub"
    by (simp add: prepared_example file_text_def ascii_def)
  have n: "suites_stub \<noteq> []" by (simp add: suites_stub_def ascii_def)
  have e: "files empty_fs (ascii ''/repo/test_suites.md'') = None" by (simp add: empty_fs_def)
  show ?thesis
    by (simp add: write_report_quiet [OF no_faults_quiet l b enc o] l b p i t n e file_text_put_file)
qed

text \<open>
  Claim C3, as the code has it. Let every call of a run write to the same store
  file, which is not the catalog file and does not exist before the run, and let
  every call return a success result. Then the store holds the blocks of the calls,
  concatenated in call order, and nothing else; the same holds after the first
  \<open>k\<close> calls for every \<open>k\<close>, so no later call alters what an earlier call wrote.
\<close>

theorem store_is_concatenation_of_blocks:
  assumes "\<forall>c\<in>set cs. call_store rt c = sid"
      and "sid \<noteq> file_id rt (suites_path rt)"
      and "files s sid = None"
      and "list_all is_Ok (fst (run_calls rt s cs))"
  shows "file_text (snd (run_calls rt s cs)) sid = concat (map (block_text rt) cs) \<and>
         (\<forall>k\<le>length cs. file_text (snd (run_calls rt s (take k cs))) sid
                            = concat (map (block_text rt) (take k cs)))"
proof -
  have e: "file_text s sid = []" using assms(3) by (simp add: file_text_def)
  have "file_text (snd (run_calls rt s (take k cs))) sid = concat (map (block_text rt) (take k cs))" for k
  proof -
    have 1: "\<forall>c\<in>set (take k cs). call_store rt c = sid"
      using assms(1) by (meson in_set_takeD)
    have 2: "list_all is_Ok (fst (run_calls rt s (take k cs)))"
      using assms(4) by (simp add: run_calls_take list_all_iff) (meson in_set_takeD)
    from run_calls_append [OF 1 assms(2) 2] e show ?thesis by simp
  qed
  from this [of "length cs"] this show ?thesis by simp
qed


theorem store_is_concatenation_of_blocks_witness:
  "list_all (\<lambda>c. call_store example_runtime c = ascii ''/repo/test_reports/results.md'')
     [(quiet 0, ascii ''T'', ascii ''{}'', None), (quiet 1, ascii ''U'', skipped_text, None)] \<and>
   ascii ''/repo/test_reports/results.md'' \<noteq> file_id example_runtime (suites_path example_runtime) \<and>
   files empty_fs (ascii ''/repo/test_reports/results.md'') = None \<and>
   list_all is_Ok (fst (run_calls example_runtime empty_fs
     [(quiet 0, ascii ''T'', ascii ''{}'', None), (quiet 1, ascii ''U'', skipped_text, None)])) \<and>
   file_text (snd (run_calls example_runtime empty_fs
     [(quiet 0, ascii ''T'', ascii ''{}'', None), (quiet 1, ascii ''U'', skipped_text, None)]))
       (ascii ''/repo/test_reports/results.md'')
     = block_text example_runtime (quiet 0, ascii ''T'', ascii ''{}'', None)
       @ block_text example_runtime (quiet 1, ascii ''U'', skipped_text, None)"
proof -
  let ?cs = "[(quiet 0, ascii ''T'', ascii ''{}'', None), (quiet 1, ascii ''U'', skipped_text, None)]"
  let ?r = "ascii ''/repo/test_reports/results.md''"
  have 1: "\<forall>c\<in>set ?cs. call_store example_runtime c = ?r"
    by (simp add: example_paths)
  have 2: "?r \<noteq> file_id example_runtime (suites_path example_runtime)"
    by (simp add: example_paths example_paths_distinct)
  have 3: "files empty_fs ?r = None" by (simp add: empty_fs_def)
  obtain ls where b: "block_lines example_runtime (ascii ''T'') (PDict []) (ascii (now (quiet 0))) = Inr ls"
    and enc: "list_all encodable ls"
    using empty_object_block [OF encodable_ascii] by blast
  have b': "block_lines example_runtime (ascii ''U'') (PDict [(ascii ''status'', PStr (ascii ''SKIPPED''))])
              (ascii (now (quiet 1)))
      = Inr [ascii ''## U '' @ [em_dash] @ ascii '' SKIPPED'' @ [10],
             ascii ''- When: 2026-01-01 00:00:00'' @ [10],
             ascii ''- URL: '' @ [10], ascii ''- Title: '' @ [10], ascii ''- Checks:'' @ [10], separator]"
    by (simp add: block_lines_def dict_get_def ascii_def Let_def quiet_def)
  have enc': "list_all encodable
             [ascii ''## U '' @ [em_dash] @ ascii '' SKIPPED'' @ [10],
              ascii ''- When: 2026-01-01 00:00:00'' @ [10],
              ascii ''- URL: '' @ [10], ascii ''- Title: '' @ [10], ascii ''- Checks:'' @ [10], separator]"
    by (simp add: encodable_simps)
  have o: "store_opens example_runtime (prepared example_runtime (quiet 0) empty_fs) (store_path example_runtime None)"
    using store_opens_results [OF no_faults_quiet, of empty_fs 0] by (simp add: example_paths dirs_examples)
  let ?s1 = "snd (write_report example_runtime (quiet 0) empty_fs (ascii ''T'') (ascii ''{}'') None)"
  have "dirs ?s1 = {ascii ''/repo/test_reports''}"
    by (simp add: dirs_write_report [OF no_faults_quiet] example_paths dirs_examples)
  then have o': "store_opens example_runtime (prepared example_runtime (quiet 1) ?s1) (store_path example_runtime None)"
    using store_opens_results [OF no_faults_quiet, of ?s1 1]
    by (simp add: example_paths example_paths_distinct)
  have a1: "is_Ok (fst (write_report example_runtime (quiet 0) empty_fs (ascii ''T'') (ascii ''{}'') None))"
    by (rule write_report_is_Ok [OF no_faults_quiet loads_empty_object b enc o])
  have a2: "is_Ok (fst (write_report example_runtime (quiet 1) ?s1 (ascii ''U'') skipped_text None))"
    by (rule write_report_is_Ok [OF no_faults_quiet loads_skipped b' enc' o'])
  have 4: "list_all is_Ok (fst (run_calls example_runtime empty_fs ?cs))"
    by (simp only: run_calls_Cons_fst run_calls.simps(1) fst_conv list.pred_inject a1 a2 simp_thms)
  from store_is_concatenation_of_blocks [OF 1 2 3 4] 1 2 3 4 show ?thesis by simp
qed

section \<open>A verdict text that is not decoded\<close>

text \<open>
  The text \<open>{not json\<close> with the catalog file as the report path: the call returns
  a failure result, and the file of that path, which did not exist, has been created
  with the stub.
\<close>

theorem parse_failure_creates_store_counterexample:
  "json_loads example_runtime not_json = Inl (JSONDecodeError
     (ascii ''Expecting property name enclosed in double quotes: line 1 column 2 (char 1)'')) \<and>
   files empty_fs (ascii ''/repo/test_suites.md'') = None \<and>
   (case write_report example_runtime (quiet 0) empty_fs (ascii ''T'') not_json
           (Some (ascii ''/repo/test_suites.md'')) of
      (r, s') \<Rightarrow>
        r = Err (ascii ''Expecting property name enclosed in double quotes: line 1 column 2 (char 1)'') \<and>
        files s' (ascii ''/repo/test_suites.md'') = Some \<lparr>content = suites_stub, mtime = 0\<rparr>)"
proof -
  have e: "files empty_fs (ascii ''/repo/test_suites.md'') = None" by (simp add: empty_fs_def)
  show ?thesis
    by (simp add: write_report_no_faults [OF no_faults_quiet] loads_not_json e prepared_example)
qed

text \<open>
  Claim C4, as the code has it. When the verdict text is not decoded and the report
  path does not name the catalog file, \<open>write_report\<close> returns a failure result
  and the store file is as before: absent if it was absent, with the same content
  and modification time if it was there.
\<close>

theorem parse_failure_leaves_store:
  assumes "json_loads rt raw = Inl e"
      and "file_id rt (store_path rt rf) \<noteq> file_id rt (suites_path rt)"
  shows "(\<exists>m. fst (write_report rt io s n raw rf) = Err m) \<and>
         files (snd (write_report rt io s n raw rf)) (file_id rt (store_path rt rf))
           = files s (file_id rt (store_path rt rf))"
proof -
  from write_report_parse_error [OF assms(1), of io s n rf]
  have "snd (write_report rt io s n raw rf) = snd (ensure_reports_dir rt io s) \<or>
        snd (write_report rt io s n raw rf) = prepared rt io s"
    and "\<exists>m. fst (write_report rt io s n raw rf) = Err m"
    by blast+
  then show ?thesis
    using assms(2) by (auto simp: ensure_files prepared_frame)
qed

theorem parse_failure_leaves_store_witness:
  "json_loads example_runtime not_json = Inl (JSONDecodeError
     (ascii ''Expecting property name enclosed in double quotes: line 1 column 2 (char 1)'')) \<and>
   file_id example_runtime (store_path example_runtime None)
     \<noteq> file_id example_runtime (suites_path example_runtime) \<and>
   (\<exists>m. fst (write_report example_runtime (quiet 1)
            (put_file example_runtime (quiet 0) empty_fs (ascii ''/repo/test_reports/results.md'') (ascii ''old''))
            (ascii ''T'') not_json None) = Err m) \<and>
   files (snd (write_report example_runtime (quiet 1)
            (put_file example_runtime (quiet 0) empty_fs (ascii ''/repo/test_reports/results.md'') (ascii ''old''))
            (ascii ''T'') not_json None)) (ascii ''/repo/test_reports/results.md'')
     = Some \<lparr>content = ascii ''old'', mtime = 0\<rparr>"
proof -
  have 2: "file_id example_runtime (store_path example_runtime None)
     \<noteq> file_id example_runtime (suites_path example_runtime)"
    by (simp add: example_paths example_paths_distinct)
  have c: "clock (quiet 0) = 0" by (simp add: quiet_def)
  from parse_failure_leaves_store [OF loads_not_json 2] loads_not_json 2
  show ?thesis by (simp add: example_paths files_put_file c)
qed

section \<open>No exception leaves \<open>write_report\<close>\<close>

text \<open>
  Claim C5. Whatever the body of the \<open>try\<close> does, \<open>write_report\<close> returns a result:
  the success result with the path when the body returns, the failure result with
  \<open>str(e)\<close> when the body raises \<open>e\<close>. Each failure mode ends so: a failing
  \<open>os.makedirs\<close>, an exception leaving \<open>generate_test_suites_file\<close>, a verdict
  text that is not decoded, a failing \<open>open\<close> of the store and a failing write to it.
\<close>

theorem write_report_returns_result:
  "(case write_report_body rt io s n raw rf of
      (Inr p, s') \<Rightarrow> write_report rt io s n raw rf = (Ok p, s')
    | (Inl e, s') \<Rightarrow> write_report rt io s n raw rf = (Err (exn_str e), s')) \<and>
   (makedirs_fault io = Some e1 \<longrightarrow> fst (write_report rt io s n raw rf) = Err (exn_str e1)) \<and>
   (fst (generate_test_suites_file rt io (snd (ensure_reports_dir rt io s))) = Inl e2 \<longrightarrow>
      (\<exists>m. fst (write_report rt io s n raw rf) = Err m)) \<and>
   (json_loads rt raw = Inl e3 \<longrightarrow> (\<exists>m. fst (write_report rt io s n raw rf) = Err m)) \<and>
   (open_a_fault io = Some e4 \<longrightarrow> (\<exists>m. fst (write_report rt io s n raw rf) = Err m)) \<and>
   (write_a_fault io = Some (e5, k) \<longrightarrow> (\<exists>m. fst (write_report rt io s n raw rf) = Err m))"
proof (intro conjI impI)
  show "case write_report_body rt io s n raw rf of
      (Inr p, s') \<Rightarrow> write_report rt io s n raw rf = (Ok p, s')
    | (Inl e, s') \<Rightarrow> write_report rt io s n raw rf = (Err (exn_str e), s')"
    by (simp add: write_report_def split: prod.splits sum.splits)
next
  assume "makedirs_fault io = Some e1"
  then show "fst (write_report rt io s n raw rf) = Err (exn_str e1)"
    by (simp add: write_report_def write_report_body_def ensure_reports_dir_def os_makedirs_def)
next
  assume "fst (generate_test_suites_file rt io (snd (ensure_reports_dir rt io s))) = Inl e2"
  then show "\<exists>m. fst (write_report rt io s n raw rf) = Err m"
    by (auto simp: write_report_def write_report_body_def split: prod.splits sum.splits)
next
  assume "json_loads rt raw = Inl e3"
  then show "\<exists>m. fst (write_report rt io s n raw rf) = Err m"
    using write_report_parse_error by blast
next
  assume "open_a_fault io = Some e4"
  then have oe: "open_append_error rt io s2 p \<noteq> None" for s2 p
    by (simp add: open_append_error_None)
  have "\<exists>x. fst (append_lines rt io s2 p ls) = Inl x" for s2 p ls
    using oe [of s2 p] by (cases "open_append_error rt io s2 p") (simp_all add: append_lines_def)
  then show "\<exists>m. fst (write_report rt io s n raw rf) = Err m"
    by (auto simp: write_report_def write_report_body_def Let_def
        split: prod.splits sum.splits) (metis fst_conv sum.distinct(1))
next
  assume "write_a_fault io = Some (e5, k)"
  then have "\<exists>x. fst (append_lines rt io s2 p ls) = Inl x" for s2 p ls
    by (auto simp: append_lines_def split: option.splits prod.splits)
  then show "\<exists>m. fst (write_report rt io s n raw rf) = Err m"
    by (auto simp: write_report_def write_report_body_def Let_def
        split: prod.splits sum.splits) (metis fst_conv sum.distinct(1))
qed

theorem write_report_returns_result_witness:
  "makedirs_fault read_only = Some read_only_error \<and>
   fst (generate_test_suites_file example_runtime read_only
          (snd (ensure_reports_dir example_runtime read_only empty_fs))) = Inl read_only_error \<and>
   json_loads example_runtime not_json = Inl (JSONDecodeError
     (ascii ''Expecting property name enclosed in double quotes: line 1 column 2 (char 1)'')) \<and>
   open_a_fault read_only = Some read_only_error \<and>
   write_a_fault read_only = Some (read_only_error, 0) \<and>
   fst (write_report example_runtime read_only empty_fs (ascii ''T'') not_json None)
     = Err (ascii ''[Errno 30] Read-only file system'')"
proof -
  have 1: "makedirs_fault read_only = Some read_only_error"
    and 4: "open_a_fault read_only = Some read_only_error"
    and 5: "write_a_fault read_only = Some (read_only_error, 0)"
    by (simp_all add: read_only_def quiet_def)
  have 2: "fst (generate_test_suites_file example_runtime read_only
          (snd (ensure_reports_dir example_runtime read_only empty_fs))) = Inl read_only_error"
    by (simp add: generate_test_suites_file_def ensure_reports_dir_def os_makedirs_def os_utime_def
        write_new_def path_exists_def read_only_def quiet_def empty_fs_def Let_def)
  have m: "exn_str read_only_error = ascii ''[Errno 30] Read-only file system''"
    by (simp add: read_only_error_def)
  from write_report_returns_result
         [of example_runtime read_only empty_fs "ascii ''T''" not_json None
             read_only_error read_only_error _ read_only_error read_only_error 0] 1 2 4 5 m loads_not_json
  show ?thesis by simp
qed

section \<open>The scenario and the format of a block\<close>

lemma block_lines_verdict:
  "block_lines rt (ascii ''Flipkart Add To Cart'') verdict_obj tm
     = Inr [ascii ''## Flipkart Add To Cart '' @ [em_dash] @ ascii '' PASS'' @ [10],
            ascii ''- When: '' @ tm @ [10],
            ascii ''- URL: https://flipkart.com'' @ [10],
            ascii ''- Title: Flipkart'' @ [10],
            ascii ''- Checks:'' @ [10],
            ascii ''  - ['' @ [check_mark] @ ascii ''] cart count '' @ [em_dash] @ ascii '' 1 item'' @ [10],
            separator]"
  by (simp add: block_lines_def verdict_obj_def dict_get_def check_line_def ascii_def Let_def)

lemma block_lines_ok_no:
  "block_lines rt (ascii ''T'') ok_no_obj tm
     = Inr [ascii ''## T '' @ [em_dash] @ ascii '' UNKNOWN'' @ [10],
            ascii ''- When: '' @ tm @ [10],
            ascii ''- URL: '' @ [10],
            ascii ''- Title: '' @ [10],
            ascii ''- Checks:'' @ [10],
            ascii ''  - ['' @ [check_mark] @ ascii ''] login '' @ [em_dash] @ ascii '' form'' @ [10],
            separator]"
  by (simp add: block_lines_def ok_no_obj_def dict_get_def check_line_def ascii_def Let_def)

text \<open>
  A check whose \<open>ok\<close> is the string \<open>no\<close>: the value of \<open>ok\<close> is not \<open>true\<close>, and the
  line of the check in the appended block has the check mark.
\<close>

theorem ok_string_counterexample:
  "json_loads example_runtime ok_no_text = Inr ok_no_obj \<and>
   (case write_report example_runtime (quiet 0) empty_fs (ascii ''T'') ok_no_text None of
      (r, s') \<Rightarrow>
        r = Ok (ascii ''/repo/test_reports/results.md'') \<and>
        file_text s' (ascii ''/repo/test_reports/results.md'') =
          ascii ''## T '' @ [em_dash] @ ascii '' UNKNOWN'' @ [10]
          @ ascii ''- When: 2026-01-01 00:00:00'' @ [10]
          @ ascii ''- URL: '' @ [10]
          @ ascii ''- Title: '' @ [10]
          @ ascii ''- Checks:'' @ [10]
          @ ascii ''  - ['' @ [check_mark] @ ascii ''] login '' @ [em_dash] @ ascii '' form'' @ [10]
          @ separator)"
proof -
  note b = block_lines_ok_no [of example_runtime "ascii (now (quiet 0))"]
  have e: "list_all encodable
            [ascii ''## T '' @ [em_dash] @ ascii '' UNKNOWN'' @ [10],
             ascii ''- When: '' @ ascii (now (quiet 0)) @ [10],
             ascii ''- URL: '' @ [10],
             ascii ''- Title: '' @ [10],
             ascii ''- Checks:'' @ [10],
             ascii ''  - ['' @ [check_mark] @ ascii ''] login '' @ [em_dash] @ ascii '' form'' @ [10],
             separator]"
    by (simp add: encodable_simps)
  have o: "store_opens example_runtime (prepared example_runtime (quiet 0) empty_fs) (store_path example_runtime None)"
    using store_opens_results [OF no_faults_quiet, of empty_fs 0] by (simp add: example_paths dirs_examples)
  have t: "file_text (prepared example_runtime (quiet 0) empty_fs) (ascii ''/repo/test_reports/results.md'') = []"
    by (simp add: prepared_example file_text_def ascii_def)
  show ?thesis
    by (simp add: write_report_quiet [OF no_faults_quiet loads_ok_no b e o] loads_ok_no
        example_paths t file_text_put_file now_quiet) (simp add: ascii_def)
qed

text \<open>
  Claim C6, as the code has it. When no system call fails, the report path can be
  opened and the verdict text of the scenario is decoded to its object,
  \<open>write_report\<close> for the test name \<open>Flipkart Add To Cart\<close> returns the success result
  with the path and appends to the store the block with the heading of the test name
  and \<open>PASS\<close>, the one check line with the check mark, and the separator at the end.
  The block of every successful call is, in this order: heading, \<open>When\<close>, \<open>URL\<close>,
  \<open>Title\<close>, \<open>Checks\<close>, one line for each check, separator. The marker of a check
  line follows \<open>bool\<close> of the value of \<open>ok\<close>: it is the ballot x when the check has no
  \<open>ok\<close> or its value is \<open>null\<close>, \<open>false\<close>, zero or an empty string, list or object, and
  the check mark for every other value, \<open>true\<close> among them.
\<close>

theorem flipkart_scenario_and_block_format:
  "(no_faults io \<and> json_loads rt verdict_text = Inr verdict_obj \<and>
    store_opens rt (prepared rt io s) (store_path rt rf) \<longrightarrow>
      write_report rt io s (ascii ''Flipkart Add To Cart'') verdict_text rf =
        (Ok (store_path rt rf),
         put_file rt io (prepared rt io s) (store_path rt rf)
           (file_text (prepared rt io s) (file_id rt (store_path rt rf))
            @ flipkart_block (ascii (now io))))) \<and>
   (write_report rt io s n raw rf = (Ok p, s') \<longrightarrow>
      (\<exists>kvs a ds. json_loads rt raw = Inr (PDict kvs) \<and>
         dict_get kvs (ascii ''artifacts'') (PDict []) = PDict a \<and>
         py_iter (dict_get kvs (ascii ''checks'') (PList [])) = Inr (map PDict ds) \<and>
         file_text s' (file_id rt p) =
           file_text (prepared rt io s) (file_id rt p)
           @ (ascii ''## '' @ n @ [32, em_dash, 32] @ status_shown (isprintable rt) kvs @ [10])
           @ (ascii ''- When: '' @ ascii (now io) @ [10])
           @ (ascii ''- URL: '' @ py_str (isprintable rt) (dict_get a (ascii ''url'') (PStr [])) @ [10])
           @ (ascii ''- Title: '' @ py_str (isprintable rt) (dict_get a (ascii ''title'') (PStr [])) @ [10])
           @ (ascii ''- Checks:'' @ [10])
           @ concat (map (check_text (isprintable rt)) ds)
           @ separator)) \<and>
   check_line pr (PDict c) = Inr (check_text pr c) \<and>
   check_text pr c =
     ascii ''  - [''
     @ [case dict_get c (ascii ''ok'') PNone of
          PNone \<Rightarrow> ballot_x
        | PBool b \<Rightarrow> if b then check_mark else ballot_x
        | PInt i \<Rightarrow> if i = 0 then ballot_x else check_mark
        | PFloat z r \<Rightarrow> if z then ballot_x else check_mark
        | PStr t \<Rightarrow> if t = [] then ballot_x else check_mark
        | PList xs \<Rightarrow> if xs = [] then ballot_x else check_mark
        | PDict kvs \<Rightarrow> if kvs = [] then ballot_x else check_mark]
     @ ascii ''] '' @ py_str pr (dict_get c (ascii ''name'') (PStr []))
     @ [32, em_dash, 32] @ py_str pr (dict_get c (ascii ''details'') (PStr [])) @ [10]"
proof (intro conjI impI)
  assume a: "no_faults io \<and> json_loads rt verdict_text = Inr verdict_obj \<and>
    store_opens rt (prepared rt io s) (store_path rt rf)"
  then have n: "no_faults io" and l: "json_loads rt verdict_text = Inr verdict_obj"
    and o: "store_opens rt (prepared rt io s) (store_path rt rf)" by simp_all
  note b = block_lines_verdict [of rt "ascii (now io)"]
  have e: "list_all encodable
            [ascii ''## Flipkart Add To Cart '' @ [em_dash] @ ascii '' PASS'' @ [10],
             ascii ''- When: '' @ ascii (now io) @ [10],
             ascii ''- URL: https://flipkart.com'' @ [10],
             ascii ''- Title: Flipkart'' @ [10],
             ascii ''- Checks:'' @ [10],
             ascii ''  - ['' @ [check_mark] @ ascii ''] cart count '' @ [em_dash] @ ascii '' 1 item'' @ [10],
             separator]"
    by (simp add: encodable_simps)
  show "write_report rt io s (ascii ''Flipkart Add To Cart'') verdict_text rf =
        (Ok (store_path rt rf),
         put_file rt io (prepared rt io s) (store_path rt rf)
           (file_text (prepared rt io s) (file_id rt (store_path rt rf))
            @ flipkart_block (ascii (now io))))"
    by (simp add: write_report_quiet [OF n l b e o] flipkart_block_def)
next
  assume w: "write_report rt io s n raw rf = (Ok p, s')"
  from write_report_Ok [OF w] obtain obj ls where
    l: "json_loads rt raw = Inr obj" and b: "block_lines rt n obj (ascii (now io)) = Inr ls" and
    s: "s' = put_file rt io (prepared rt io s) p (file_text (prepared rt io s) (file_id rt p) @ concat ls)"
    by blast
  from block_lines_dict [OF b] obtain kvs a ds where o: "obj = PDict kvs" and
    ar: "dict_get kvs (ascii ''artifacts'') (PDict []) = PDict a" and
    it: "py_iter (dict_get kvs (ascii ''checks'') (PList [])) = Inr (map PDict ds)" and
    ls: "ls = [ascii ''## '' @ n @ [32, em_dash, 32] @ py_str (isprintable rt) (dict_get kvs (ascii ''status'') (PStr (ascii ''UNKNOWN''))) @ [10],
           ascii ''- When: '' @ ascii (now io) @ [10],
           ascii ''- URL: '' @ py_str (isprintable rt) (dict_get a (ascii ''url'') (PStr [])) @ [10],
           ascii ''- Title: '' @ py_str (isprintable rt) (dict_get a (ascii ''title'') (PStr [])) @ [10],
           ascii ''- Checks:'' @ [10]]
          @ map (check_text (isprintable rt)) ds @ [separator]"
    by blast
  have "file_text s' (file_id rt p) =
           file_text (prepared rt io s) (file_id rt p)
           @ (ascii ''## '' @ n @ [32, em_dash, 32] @ status_shown (isprintable rt) kvs @ [10])
           @ (ascii ''- When: '' @ ascii (now io) @ [10])
           @ (ascii ''- URL: '' @ py_str (isprintable rt) (dict_get a (ascii ''url'') (PStr [])) @ [10])
           @ (ascii ''- Title: '' @ py_str (isprintable rt) (dict_get a (ascii ''title'') (PStr [])) @ [10])
           @ (ascii ''- Checks:'' @ [10])
           @ concat (map (check_text (isprintable rt)) ds)
           @ separator"
    by (simp add: s ls file_text_put_file status_shown_get)
  with l o ar it show "\<exists>kvs a ds. json_loads rt raw = Inr (PDict kvs) \<and>
         dict_get kvs (ascii ''artifacts'') (PDict []) = PDict a \<and>
         py_iter (dict_get kvs (ascii ''checks'') (PList [])) = Inr (map PDict ds) \<and>
         file_text s' (file_id rt p) =
           file_text (prepared rt io s) (file_id rt p)
           @ (ascii ''## '' @ n @ [32, em_dash, 32] @ status_shown (isprintable rt) kvs @ [10])
           @ (ascii ''- When: '' @ ascii (now io) @ [10])
           @ (ascii ''- URL: '' @ py_str (isprintable rt) (dict_get a (ascii ''url'') (PStr [])) @ [10])
           @ (ascii ''- Title: '' @ py_str (isprintable rt) (dict_get a (ascii ''title'') (PStr [])) @ [10])
           @ (ascii ''- Checks:'' @ [10])
           @ concat (map (check_text (isprintable rt)) ds)
           @ separator"
    by blast
next
  show "check_line pr (PDict c) = Inr (check_text pr c)" by (rule check_line_dict)
next
  show "check_text pr c =
     ascii ''  - [''
     @ [case dict_get c (ascii ''ok'') PNone of
          PNone \<Rightarrow> ballot_x
        | PBool b \<Rightarrow> if b then check_mark else ballot_x
        | PInt i \<Rightarrow> if i = 0 then ballot_x else check_mark
        | PFloat z r \<Rightarrow> if z then ballot_x else check_mark
        | PStr t \<Rightarrow> if t = [] then ballot_x else check_mark
        | PList xs \<Rightarrow> if xs = [] then ballot_x else check_mark
        | PDict kvs \<Rightarrow> if kvs = [] then ballot_x else check_mark]
     @ ascii ''] '' @ py_str pr (dict_get c (ascii ''name'') (PStr []))
     @ [32, em_dash, 32] @ py_str pr (dict_get c (ascii ''details'') (PStr [])) @ [10]"
    by (simp add: check_text_def ok_marker_def)
qed

theorem flipkart_scenario_and_block_format_witness:
  "no_faults (quiet 0) \<and>
   json_loads example_runtime verdict_text = Inr verdict_obj \<and>
   store_opens example_runtime (prepared example_runtime (quiet 0) empty_fs) (store_path example_runtime None) \<and>
   fst (write_report example_runtime (quiet 0) empty_fs (ascii ''Flipkart Add To Cart'') verdict_text None)
     = Ok (ascii ''/repo/test_reports/results.md'') \<and>
   file_text (snd (write_report example_runtime (quiet 0) empty_fs (ascii ''Flipkart Add To Cart'') verdict_text None))
       (ascii ''/repo/test_reports/results.md'')
     = flipkart_block (ascii ''2026-01-01 00:00:00'') \<and>
   (\<exists>kvs a ds. verdict_obj = PDict kvs \<and>
      dict_get kvs (ascii ''artifacts'') (PDict []) = PDict a \<and>
      py_iter (dict_get kvs (ascii ''checks'') (PList [])) = Inr (map PDict ds) \<and>
      flipkart_block (ascii ''2026-01-01 00:00:00'') =
        (ascii ''## Flipkart Add To Cart'' @ [32, em_dash, 32] @ status_shown (\<lambda>c. True) kvs @ [10])
        @ (ascii ''- When: 2026-01-01 00:00:00'' @ [10])
        @ (ascii ''- URL: '' @ py_str (\<lambda>c. True) (dict_get a (ascii ''url'') (PStr [])) @ [10])
        @ (ascii ''- Title: '' @ py_str (\<lambda>c. True) (dict_get a (ascii ''title'') (PStr [])) @ [10])
        @ (ascii ''- Checks:'' @ [10])
        @ concat (map (check_text (\<lambda>c. True)) ds)
        @ separator) \<and>
   check_line (\<lambda>c. True) (PDict [(ascii ''ok'', PStr (ascii ''no''))])
     = Inr (ascii ''  - ['' @ [check_mark] @ ascii ''] '' @ [32, em_dash, 32] @ [10]) \<and>
   check_line (\<lambda>c. True) (PDict [(ascii ''ok'', PInt 0)])
     = Inr (ascii ''  - ['' @ [ballot_x] @ ascii ''] '' @ [32, em_dash, 32] @ [10]) \<and>
   check_line (\<lambda>c. True) (PDict [])
     = Inr (ascii ''  - ['' @ [ballot_x] @ ascii ''] '' @ [32, em_dash, 32] @ [10])"
proof -
  let ?w = "write_report example_runtime (quiet 0) empty_fs (ascii ''Flipkart Add To Cart'') verdict_text None"
  let ?r = "ascii ''/repo/test_reports/results.md''"
  have l: "json_loads example_runtime verdict_text = Inr verdict_obj"
    by (simp add: example_runtime_def example_loads_def)
  have o: "store_opens example_runtime (prepared example_runtime (quiet 0) empty_fs) (store_path example_runtime None)"
    using store_opens_results [OF no_faults_quiet, of empty_fs 0] by (simp add: example_paths dirs_examples)
  have t: "file_text (prepared example_runtime (quiet 0) empty_fs) ?r = []"
    by (simp add: prepared_example file_text_def ascii_def)
  have pr: "isprintable example_runtime = (\<lambda>c. True)" by (simp add: example_runtime_def)
  note inst = flipkart_scenario_and_block_format
    [where io = "quiet 0" and rt = example_runtime and s = empty_fs and rf = None
       and n = "ascii ''Flipkart Add To Cart''" and raw = verdict_text
       and p = "?r" and s' = "snd ?w" and pr = "\<lambda>c. True"]
  from inst [of "[]"] no_faults_quiet l o
  have w: "?w = (Ok ?r, put_file example_runtime (quiet 0) (prepared example_runtime (quiet 0) empty_fs) ?r
               (flipkart_block (ascii ''2026-01-01 00:00:00'')))"
    by (simp add: example_paths t now_quiet)
  then have f: "fst ?w = Ok ?r" and e: "?w = (Ok ?r, snd ?w)" by simp_all
  from w have c: "file_text (snd ?w) ?r = flipkart_block (ascii ''2026-01-01 00:00:00'')"
    by (simp add: file_text_put_file example_paths)
  from inst [of "[]"] e l have
    "\<exists>kvs a ds. verdict_obj = PDict kvs \<and>
      dict_get kvs (ascii ''artifacts'') (PDict []) = PDict a \<and>
      py_iter (dict_get kvs (ascii ''checks'') (PList [])) = Inr (map PDict ds) \<and>
      file_text (snd ?w) ?r =
        file_text (prepared example_runtime (quiet 0) empty_fs) ?r
        @ (ascii ''## '' @ ascii ''Flipkart Add To Cart'' @ [32, em_dash, 32] @ status_shown (\<lambda>c. True) kvs @ [10])
        @ (ascii ''- When: '' @ ascii (now (quiet 0)) @ [10])
        @ (ascii ''- URL: '' @ py_str (\<lambda>c. True) (dict_get a (ascii ''url'') (PStr [])) @ [10])
        @ (ascii ''- Title: '' @ py_str (\<lambda>c. True) (dict_get a (ascii ''title'') (PStr [])) @ [10])
        @ (ascii ''- Checks:'' @ [10])
        @ concat (map (check_text (\<lambda>c. True)) ds)
        @ separator"
    by (simp add: example_paths pr)
  then have b: "\<exists>kvs a ds. verdict_obj = PDict kvs \<and>
      dict_get kvs (ascii ''artifacts'') (PDict []) = PDict a \<and>
      py_iter (dict_get kvs (ascii ''checks'') (PList [])) = Inr (map PDict ds) \<and>
      flipkart_block (ascii ''2026-01-01 00:00:00'') =
        (ascii ''## Flipkart Add To Cart'' @ [32, em_dash, 32] @ status_shown (\<lambda>c. True) kvs @ [10])
        @ (ascii ''- When: 2026-01-01 00:00:00'' @ [10])
        @ (ascii ''- URL: '' @ py_str (\<lambda>c. True) (dict_get a (ascii ''url'') (PStr [])) @ [10])
        @ (ascii ''- Title: '' @ py_str (\<lambda>c. True) (dict_get a (ascii ''title'') (PStr [])) @ [10])
        @ (ascii ''- Checks:'' @ [10])
        @ concat (map (check_text (\<lambda>c. True)) ds)
        @ separator"
    unfolding c t now_quiet by (simp add: ascii_def)
  from inst [of "[(ascii ''ok'', PStr (ascii ''no''))]"]
  have m1: "check_line (\<lambda>c. True) (PDict [(ascii ''ok'', PStr (ascii ''no''))])
     = Inr (ascii ''  - ['' @ [check_mark] @ ascii ''] '' @ [32, em_dash, 32] @ [10])"
    by (simp add: dict_get_def ascii_def)
  from inst [of "[(ascii ''ok'', PInt 0)]"]
  have m2: "check_line (\<lambda>c. True) (PDict [(ascii ''ok'', PInt 0)])
     = Inr (ascii ''  - ['' @ [ballot_x] @ ascii ''] '' @ [32, em_dash, 32] @ [10])"
    by (simp add: dict_get_def ascii_def)
  from inst [of "[]"]
  have m3: "check_line (\<lambda>c. True) (PDict [])
     = Inr (ascii ''  - ['' @ [ballot_x] @ ascii ''] '' @ [32, em_dash, 32] @ [10])"
    by (simp add: dict_get_def)
  from no_faults_quiet l o f c b m1 m2 m3 show ?thesis by blast
qed

section \<open>Reading the report back\<close>

lemma universal_newlines_without_cr: "13 \<notin> set t \<Longrightarrow> universal_newlines t = t"
  by (induction t) simp_all

lemma results_path_example: "results_path example_runtime = ascii ''/repo/test_reports/results.md''"
  using example_paths(1) by (simp add: store_path_def)

text \<open>
  With a directory at the path of the store and no failing read, no store file
  exists and yet the result is not \<open>None\<close> but the text of the error. With a store
  file that holds \<open>A\<close>, a carriage return and \<open>B\<close>, the result for \<open>k = 3\<close> is \<open>A\<close>, a
  line feed and \<open>B\<close>, which is not the first three characters of the file.
\<close>

theorem read_summary_counterexample:
  "files dir_fs (ascii ''/repo/test_reports/results.md'') = None \<and>
   read_fault (quiet 0) = None \<and>
   read_latest_report_summary example_runtime (quiet 0) dir_fs 3 =
     Some (ascii ''Failed to read report: [Errno 21] Is a directory: ''
           @ [39] @ ascii ''/repo/test_reports/results.md'' @ [39]) \<and>
   files cr_fs (ascii ''/repo/test_reports/results.md'')
     = Some \<lparr>content = ascii ''A'' @ [13] @ ascii ''B'', mtime = 0\<rparr> \<and>
   read_latest_report_summary example_runtime (quiet 0) cr_fs 3 = Some (ascii ''A'' @ [10] @ ascii ''B'') \<and>
   take 3 (ascii ''A'' @ [13] @ ascii ''B'') \<noteq> ascii ''A'' @ [10] @ ascii ''B''"
proof -
  have d: "files dir_fs (ascii ''/repo/test_reports/results.md'') = None"
    "ascii ''/repo/test_reports/results.md'' \<in> dirs dir_fs"
    by (simp_all add: dir_fs_def empty_fs_def)
  have q: "read_fault (quiet 0) = None" by (simp add: quiet_def)
  have r: "repr_str (isprintable example_runtime) (ascii ''/repo/test_reports/results.md'')
      = [39] @ ascii ''/repo/test_reports/results.md'' @ [39]"
    by (simp add: repr_str_def repr_char_def example_runtime_def ascii_def Let_def)
  have 1: "read_latest_report_summary example_runtime (quiet 0) dir_fs 3 =
     Some (ascii ''Failed to read report: [Errno 21] Is a directory: ''
           @ [39] @ ascii ''/repo/test_reports/results.md'' @ [39])"
    by (simp add: read_latest_report_summary_def path_exists_def read_text_def Let_def
        results_path_example example_paths d q r) (simp add: ascii_def)
  have c: "files cr_fs (ascii ''/repo/test_reports/results.md'')
     = Some \<lparr>content = ascii ''A'' @ [13] @ ascii ''B'', mtime = 0\<rparr>"
    by (simp add: cr_fs_def files_put_file example_paths quiet_def)
  have u: "universal_newlines (ascii ''A'' @ [13] @ ascii ''B'') = ascii ''A'' @ [10] @ ascii ''B''"
    by (simp add: ascii_def)
  have 2: "read_latest_report_summary example_runtime (quiet 0) cr_fs 3 = Some (ascii ''A'' @ [10] @ ascii ''B'')"
    by (simp add: read_latest_report_summary_def path_exists_def read_text_def Let_def
        results_path_example example_paths c q u slice_to_def) (simp add: ascii_def)
  have 3: "take 3 (ascii ''A'' @ [13] @ ascii ''B'') \<noteq> ascii ''A'' @ [10] @ ascii ''B''"
    by (simp add: ascii_def)
  from d(1) q 1 c 2 3 show ?thesis by blast
qed

text \<open>
  Claim C7, as the code has it. For \<open>0 \<le> k\<close>, \<open>read_latest_report_summary\<close> returns
  \<open>None\<close> when nothing exists at the path of the store. When the store file is there
  and reading it does not fail, it returns the first \<open>k\<close> characters (all of them when
  there are at most \<open>k\<close>) of the file's text as text mode reads it, with every carriage
  return, alone or before a line feed, read as one line feed; this is the first \<open>k\<close>
  characters of the file when the file holds no carriage return. When something
  exists at the path and reading it fails, the result is neither of these but the
  text \<open>Failed to read report:\<close> with the error: so for a failing read, and so for a
  directory at the path.
\<close>

theorem read_summary_is_prefix_of_store:
  assumes "0 \<le> k"
  shows "(files s (file_id rt (results_path rt)) = None \<and> file_id rt (results_path rt) \<notin> dirs s \<longrightarrow>
            read_latest_report_summary rt io s k = None) \<and>
         (files s (file_id rt (results_path rt)) = Some f \<and> read_fault io = None \<longrightarrow>
            read_latest_report_summary rt io s k
              = Some (take (nat k) (universal_newlines (content f))) \<and>
            (length (universal_newlines (content f)) \<le> nat k \<longrightarrow>
               read_latest_report_summary rt io s k = Some (universal_newlines (content f)))) \<and>
         (files s (file_id rt (results_path rt)) = Some f \<and> read_fault io = None \<and>
          13 \<notin> set (content f) \<longrightarrow>
            read_latest_report_summary rt io s k = Some (take (nat k) (content f))) \<and>
         (path_exists rt s (results_path rt) \<and> read_fault io = Some e \<longrightarrow>
            read_latest_report_summary rt io s k
              = Some (ascii ''Failed to read report: '' @ exn_str e)) \<and>
         (files s (file_id rt (results_path rt)) = None \<and> file_id rt (results_path rt) \<in> dirs s \<and>
          read_fault io = None \<longrightarrow>
            read_latest_report_summary rt io s k
              = Some (ascii ''Failed to read report: '' @ ascii ''[Errno 21] Is a directory: ''
                      @ repr_str (isprintable rt) (results_path rt)))"
  using assms
  by (simp add: read_latest_report_summary_def path_exists_def read_text_def slice_to_def Let_def
      universal_newlines_without_cr)

theorem read_summary_is_prefix_of_store_witness:
  "(0::int) \<le> 3 \<and>
   files empty_fs (file_id example_runtime (results_path example_runtime)) = None \<and>
   file_id example_runtime (results_path example_runtime) \<notin> dirs empty_fs \<and>
   read_latest_report_summary example_runtime (quiet 0) empty_fs 3 = None \<and>
   read_fault (quiet 0) = None \<and>
   read_latest_report_summary example_runtime (quiet 0) cr_fs 3 = Some (ascii ''A'' @ [10] @ ascii ''B'') \<and>
   read_latest_report_summary example_runtime (quiet 0) cr_fs 2 = Some (ascii ''A'' @ [10]) \<and>
   read_latest_report_summary example_runtime (quiet 0)
     (put_file example_runtime (quiet 0) empty_fs (ascii ''/repo/test_reports/results.md'') (ascii ''## T''))
     3 = Some (ascii ''## '') \<and>
   path_exists example_runtime cr_fs (results_path example_runtime) \<and>
   read_latest_report_summary example_runtime ((quiet 0)\<lparr>read_fault := Some read_only_error\<rparr>) cr_fs 3
     = Some (ascii ''Failed to read report: [Errno 30] Read-only file system'') \<and>
   file_id example_runtime (results_path example_runtime) \<in> dirs dir_fs \<and>
   read_latest_report_summary example_runtime (quiet 0) dir_fs 3 =
     Some (ascii ''Failed to read report: [Errno 21] Is a directory: ''
           @ [39] @ ascii ''/repo/test_reports/results.md'' @ [39])"
proof -
  let ?s = "put_file example_runtime (quiet 0) empty_fs (ascii ''/repo/test_reports/results.md'') (ascii ''## T'')"
  let ?i = "file_id example_runtime (results_path example_runtime)"
  have i: "?i = ascii ''/repo/test_reports/results.md''"
    by (simp add: results_path_example example_paths)
  have e: "files empty_fs ?i = None" "?i \<notin> dirs empty_fs"
    by (simp_all add: empty_fs_def)
  have c: "files cr_fs ?i = Some \<lparr>content = ascii ''A'' @ [13] @ ascii ''B'', mtime = 0\<rparr>"
    by (simp add: i cr_fs_def files_put_file example_paths quiet_def)
  have f: "files ?s ?i = Some \<lparr>content = ascii ''## T'', mtime = 0\<rparr>"
    by (simp add: i files_put_file example_paths quiet_def)
  have d: "files dir_fs ?i = None" "?i \<in> dirs dir_fs"
    by (simp_all add: i dir_fs_def empty_fs_def)
  have q: "read_fault (quiet 0) = None"
    "read_fault ((quiet 0)\<lparr>read_fault := Some read_only_error\<rparr>) = Some read_only_error"
    by (simp_all add: quiet_def)
  have x: "path_exists example_runtime cr_fs (results_path example_runtime)"
    by (simp add: path_exists_def c)
  have r: "repr_str (isprintable example_runtime) (results_path example_runtime)
      = [39] @ ascii ''/repo/test_reports/results.md'' @ [39]"
    unfolding results_path_example
    by (simp add: repr_str_def repr_char_def example_runtime_def ascii_def Let_def)
  have u: "universal_newlines (ascii ''A'' @ [13] @ ascii ''B'') = ascii ''A'' @ [10] @ ascii ''B''"
    by (simp add: ascii_def)
  have n: "13 \<notin> set (ascii ''## T'')" by (simp add: ascii_def)
  from read_summary_is_prefix_of_store [where k = 3 and s = empty_fs and rt = example_runtime and io = "quiet 0"] e
  have 1: "read_latest_report_summary example_runtime (quiet 0) empty_fs 3 = None" by simp
  from read_summary_is_prefix_of_store [where k = 3 and s = cr_fs and rt = example_runtime and io = "quiet 0"
      and f = "\<lparr>content = ascii ''A'' @ [13] @ ascii ''B'', mtime = 0\<rparr>"] c q(1)
  have 2: "read_latest_report_summary example_runtime (quiet 0) cr_fs 3 = Some (ascii ''A'' @ [10] @ ascii ''B'')"
    by (simp add: u) (simp add: ascii_def)
  from read_summary_is_prefix_of_store [where k = 2 and s = cr_fs and rt = example_runtime and io = "quiet 0"
      and f = "\<lparr>content = ascii ''A'' @ [13] @ ascii ''B'', mtime = 0\<rparr>"] c q(1)
  have 3: "read_latest_report_summary example_runtime (quiet 0) cr_fs 2 = Some (ascii ''A'' @ [10])"
    by (simp add: u) (simp add: ascii_def)
  from read_summary_is_prefix_of_store [where k = 3 and s = "?s" and rt = example_runtime and io = "quiet 0"
      and f = "\<lparr>content = ascii ''## T'', mtime = 0\<rparr>"] f q(1) n
  have 4: "read_latest_report_summary example_runtime (quiet 0) ?s 3 = Some (ascii ''## '')"
    by (simp add: ascii_def)
  from read_summary_is_prefix_of_store [where k = 3 and s = cr_fs and rt = example_runtime
      and io = "(quiet 0)\<lparr>read_fault := Some read_only_error\<rparr>" and e = read_only_error] x q(2)
  have 5: "read_latest_report_summary example_runtime ((quiet 0)\<lparr>read_fault := Some read_only_error\<rparr>) cr_fs 3
     = Some (ascii ''Failed to read report: [Errno 30] Read-only file system'')"
    by (simp add: read_only_error_def) (simp add: ascii_def)
  from read_summary_is_prefix_of_store [where k = 3 and s = dir_fs and rt = example_runtime and io = "quiet 0"] d q(1)
  have 6: "read_latest_report_summary example_runtime (quiet 0) dir_fs 3 =
     Some (ascii ''Failed to read report: [Errno 21] Is a directory: ''
           @ [39] @ ascii ''/repo/test_reports/results.md'' @ [39])"
    by (simp add: r) (simp add: ascii_def)
  from e q(1) 1 2 3 4 x 5 d(2) 6 show ?thesis by simp
qed

section \<open>Facts about the catalog file\<close>

lemma generate_catalog:
  assumes "files s (file_id rt (suites_path rt)) = Some f"
  shows "files (snd (generate_test_suites_file rt io s)) (file_id rt (suites_path rt))
           = Some (case utime_fault io of None \<Rightarrow> f\<lparr>mtime := clock io\<rparr> | Some e \<Rightarrow> f)"
  using assms
  by (simp add: generate_test_suites_file_def path_exists_def os_utime_def Let_def
      split: option.splits)

lemma ensure_catalog:
  "files (snd (ensure_reports_dir rt io s)) i = files s i"
  by (simp add: ensure_files)

lemma prepared_catalog:
  assumes "files s (file_id rt (suites_path rt)) = Some f"
  shows "files (prepared rt io s) (file_id rt (suites_path rt))
           = Some (case utime_fault io of None \<Rightarrow> f\<lparr>mtime := clock io\<rparr> | Some e \<Rightarrow> f)"
  unfolding prepared_def
  by (rule generate_catalog) (simp add: ensure_files assms)

lemma write_report_catalog:
  assumes "files s (file_id rt (suites_path rt)) = Some f"
      and "file_id rt (store_path rt rf) \<noteq> file_id rt (suites_path rt)"
  shows "\<exists>f'. files (snd (write_report rt io s n raw rf)) (file_id rt (suites_path rt)) = Some f' \<and>
              content f' = content f"
  using write_report_state [of rt io s n raw rf] assms
  by (auto simp: ensure_files prepared_catalog files_put_file split: option.splits)

lemma run_calls_catalog:
  assumes "files s (file_id rt (suites_path rt)) = Some f"
      and "\<forall>c\<in>set cs. call_store rt c \<noteq> file_id rt (suites_path rt)"
  shows "\<exists>f'. files (snd (run_calls rt s cs)) (file_id rt (suites_path rt)) = Some f' \<and>
              content f' = content f"
  using assms
proof (induction cs arbitrary: s f)
  case Nil
  then show ?case by simp
next
  case (Cons c cs)
  obtain io n raw rf where c: "c = (io, n, raw, rf)" by (cases c) auto
  from Cons.prems(2) c have "file_id rt (store_path rt rf) \<noteq> file_id rt (suites_path rt)" by simp
  from write_report_catalog [OF Cons.prems(1) this, of io n raw] obtain f1 where
    f1: "files (snd (write_report rt io s n raw rf)) (file_id rt (suites_path rt)) = Some f1"
    and c1: "content f1 = content f" by blast
  from Cons.prems(2) have "\<forall>c\<in>set cs. call_store rt c \<noteq> file_id rt (suites_path rt)" by simp
  from Cons.IH [OF f1 this] c1 show ?case
    by (auto simp: c split: prod.splits)
qed

lemma write_report_touches_catalog:
  assumes "files s (file_id rt (suites_path rt)) = Some f"
      and "file_id rt (store_path rt rf) \<noteq> file_id rt (suites_path rt)"
      and "makedirs_fault io = None" and "utime_fault io = None"
  shows "files (snd (write_report rt io s n raw rf)) (file_id rt (suites_path rt))
           = Some (f\<lparr>mtime := clock io\<rparr>)"
proof -
  have g: "fst (generate_test_suites_file rt io (snd (ensure_reports_dir rt io s))) = Inr (Some (suites_path rt))"
    using assms(1,4)
    by (simp add: generate_test_suites_file_def path_exists_def os_utime_def Let_def ensure_files)
  have "snd (write_report rt io s n raw rf) = prepared rt io s \<or>
        (\<exists>d. snd (write_report rt io s n raw rf) = put_file rt io (prepared rt io s) (store_path rt rf) d)"
  proof -
    have "snd (write_report rt io s n raw rf) = prepared rt io s \<or>
          (\<exists>ls. snd (write_report rt io s n raw rf)
                  = snd (append_lines rt io (prepared rt io s) (store_path rt rf) ls))"
      using assms(3) g
      apply (auto simp: write_report_def write_report_body_def Let_def prepared_def
        store_path_def ensure_reports_dir_def os_makedirs_def split: prod.splits sum.splits option.splits)
      apply (metis snd_conv)+
      done
    then show ?thesis using append_lines_state by metis
  qed
  then show ?thesis
    using assms(2) by (auto simp: prepared_catalog [OF assms(1)] assms(4) files_put_file)
qed

section \<open>The content of the catalog file\<close>

lemma catalog_fs_file:
  "files catalog_fs (ascii ''/repo/test_suites.md'') = Some \<lparr>content = ascii ''# my suites'', mtime = 0\<rparr>"
  by (simp add: catalog_fs_def files_put_file example_paths quiet_def)

lemma catalog_fs_file':
  "files catalog_fs (file_id example_runtime (suites_path example_runtime))
     = Some \<lparr>content = ascii ''# my suites'', mtime = 0\<rparr>"
  by (simp add: catalog_fs_file example_paths)

text \<open>
  The catalog file exists and has been filled in. A call of \<open>write_report\<close> whose
  report path names the catalog file succeeds and appends its block to the catalog
  file: the content of the catalog file is altered.
\<close>

theorem report_into_catalog_counterexample:
  "files catalog_fs (ascii ''/repo/test_suites.md'') = Some \<lparr>content = ascii ''# my suites'', mtime = 0\<rparr> \<and>
   (case write_report example_runtime (quiet 2) catalog_fs (ascii ''T'') (ascii ''{}'')
           (Some (ascii ''/repo/test_suites.md'')) of
      (r, s') \<Rightarrow>
        r = Ok (ascii ''/repo/test_suites.md'') \<and>
        file_text s' (ascii ''/repo/test_suites.md'') =
          ascii ''# my suites'' @ block_text example_runtime (quiet 2, ascii ''T'', ascii ''{}'', Some (ascii ''/repo/test_suites.md'')) \<and>
        file_text s' (ascii ''/repo/test_suites.md'') \<noteq> ascii ''# my suites'')"
proof -
  obtain ls where b: "block_lines example_runtime (ascii ''T'') (PDict []) (ascii (now (quiet 2))) = Inr ls"
    and enc: "list_all encodable ls"
    using empty_object_block [OF encodable_ascii] by blast
  note n = block_lines_not_empty [OF b]
  have o: "store_opens example_runtime (prepared example_runtime (quiet 2) catalog_fs)
             (store_path example_runtime (Some (ascii ''/repo/test_suites.md'')))"
    using store_opens_suites [OF no_faults_quiet, of catalog_fs 2] by (simp add: store_path_def dirs_examples)
  have p: "store_path example_runtime (Some (ascii ''/repo/test_suites.md'')) = ascii ''/repo/test_suites.md''"
    by (simp add: store_path_def)
  have q: "utime_fault (quiet 2) = None" by (simp add: quiet_def)
  have t: "file_text (prepared example_runtime (quiet 2) catalog_fs) (ascii ''/repo/test_suites.md'') = ascii ''# my suites''"
    using prepared_catalog [OF catalog_fs_file', of "quiet 2"]
    by (simp add: file_text_def example_paths quiet_def)
  show ?thesis
    using n
    by (simp add: write_report_quiet [OF no_faults_quiet loads_empty_object b enc o] loads_empty_object b p t
        example_paths file_text_put_file catalog_fs_file)
qed

text \<open>
  Claim C8, as the code has it. When the catalog file exists,
  \<open>generate_test_suites_file\<close> leaves its content as it is and sets its modification
  time (it leaves the file as it is when \<open>os.utime\<close> fails). A run of any number of
  calls of \<open>write_report\<close>, none of which has the catalog file as its report path,
  leaves the content of the catalog file as it is; one such call in which
  \<open>os.makedirs\<close> and \<open>os.utime\<close> do not fail changes the modification time of the
  catalog file and nothing else of it.
\<close>

theorem catalog_content_is_kept:
  assumes "files s (file_id rt (suites_path rt)) = Some f"
  shows "files (snd (generate_test_suites_file rt io s)) (file_id rt (suites_path rt))
           = Some (case utime_fault io of None \<Rightarrow> f\<lparr>mtime := clock io\<rparr> | Some e \<Rightarrow> f) \<and>
         ((\<forall>c\<in>set cs. call_store rt c \<noteq> file_id rt (suites_path rt)) \<longrightarrow>
            (\<exists>f'. files (snd (run_calls rt s cs)) (file_id rt (suites_path rt)) = Some f' \<and>
                   content f' = content f)) \<and>
         (file_id rt (store_path rt rf) \<noteq> file_id rt (suites_path rt) \<and>
          makedirs_fault io = None \<and> utime_fault io = None \<longrightarrow>
            files (snd (write_report rt io s n raw rf)) (file_id rt (suites_path rt))
              = Some (f\<lparr>mtime := clock io\<rparr>))"
  using generate_catalog [OF assms] run_calls_catalog [OF assms] write_report_touches_catalog [OF assms]
  by blast

theorem catalog_content_is_kept_witness:
  "files catalog_fs (file_id example_runtime (suites_path example_runtime))
     = Some \<lparr>content = ascii ''# my suites'', mtime = 0\<rparr> \<and>
   files (snd (generate_test_suites_file example_runtime (quiet 5) catalog_fs)) (ascii ''/repo/test_suites.md'')
     = Some \<lparr>content = ascii ''# my suites'', mtime = 5\<rparr> \<and>
   list_all (\<lambda>c. call_store example_runtime c \<noteq> file_id example_runtime (suites_path example_runtime))
     [(quiet 1, ascii ''T'', ascii ''{}'', None), (quiet 2, ascii ''U'', not_json, None)] \<and>
   (\<exists>f'. files (snd (run_calls example_runtime catalog_fs
              [(quiet 1, ascii ''T'', ascii ''{}'', None), (quiet 2, ascii ''U'', not_json, None)]))
            (ascii ''/repo/test_suites.md'') = Some f' \<and> content f' = ascii ''# my suites'') \<and>
   files (snd (write_report example_runtime (quiet 5) catalog_fs (ascii ''T'') (ascii ''{}'') None))
       (ascii ''/repo/test_suites.md'')
     = Some \<lparr>content = ascii ''# my suites'', mtime = 5\<rparr>"
proof -
  let ?cs = "[(quiet 1, ascii ''T'', ascii ''{}'', None), (quiet 2, ascii ''U'', not_json, None)]"
  have 1: "\<forall>c\<in>set ?cs. call_store example_runtime c \<noteq> file_id example_runtime (suites_path example_runtime)"
    by (simp add: example_paths example_paths_distinct)
  have 2: "file_id example_runtime (store_path example_runtime None) \<noteq> file_id example_runtime (suites_path example_runtime)"
    by (simp add: example_paths example_paths_distinct)
  have 3: "makedirs_fault (quiet 5) = None" "utime_fault (quiet 5) = None" "clock (quiet 5) = 5"
    by (simp_all add: quiet_def)
  from catalog_content_is_kept [OF catalog_fs_file', where io = "quiet 5" and cs = "?cs" and rf = None
      and n = "ascii ''T''" and raw = "ascii ''{}''"] 1 2 3 catalog_fs_file'
  show ?thesis by (simp add: example_paths)
qed

section \<open>The path of the result\<close>

lemma isabs_append: "isabs a \<Longrightarrow> isabs (a @ b)"
  by (cases a) (simp_all add: isabs_def)

lemma isabs_path_join: "isabs a \<Longrightarrow> isabs (path_join a b)"
  by (simp add: path_join_def isabs_append)

lemma isabs_results_path: "isabs (repo_root rt) \<Longrightarrow> isabs (results_path rt)"
  by (simp add: results_path_def isabs_path_join)

text \<open>
  A call with the relative report path \<open>out.md\<close>: the file written is
  \<open>/work/out.md\<close>, below the working directory, and the path in the success result
  is \<open>out.md\<close> as given, which is not absolute and names no file by itself.
\<close>

theorem relative_override_counterexample:
  "\<not> isabs (ascii ''out.md'') \<and>
   file_id example_runtime (ascii ''out.md'') = ascii ''/work/out.md'' \<and>
   (case write_report example_runtime (quiet 0) empty_fs (ascii ''T'') (ascii ''{}'')
           (Some (ascii ''out.md'')) of
      (r, s') \<Rightarrow>
        r = Ok (ascii ''out.md'') \<and>
        files s' (ascii ''out.md'') = None \<and>
        files s' (ascii ''/work/out.md'') =
          Some \<lparr>content = block_text example_runtime (quiet 0, ascii ''T'', ascii ''{}'', Some (ascii ''out.md'')),
                mtime = 0\<rparr>)"
proof -
  obtain ls where b: "block_lines example_runtime (ascii ''T'') (PDict []) (ascii (now (quiet 0))) = Inr ls"
    and enc: "list_all encodable ls"
    using empty_object_block [OF encodable_ascii] by blast
  have p: "store_path example_runtime (Some (ascii ''out.md'')) = ascii ''out.md''"
    by (simp add: store_path_def)
  have o: "store_opens example_runtime (prepared example_runtime (quiet 0) empty_fs)
             (store_path example_runtime (Some (ascii ''out.md'')))"
    using store_opens_out [OF no_faults_quiet, of empty_fs 0] by (simp add: p dirs_examples)
  have a: "\<not> isabs (ascii ''out.md'')" by (simp add: isabs_def ascii_def)
  have t: "file_text (prepared example_runtime (quiet 0) empty_fs) (ascii ''/work/out.md'') = []"
    "files (prepared example_runtime (quiet 0) empty_fs) (ascii ''out.md'') = None"
    by (simp_all add: prepared_example file_text_def ascii_def)
  have c: "clock (quiet 0) = 0" by (simp add: quiet_def)
  show ?thesis
    by (simp add: write_report_quiet [OF no_faults_quiet loads_empty_object b enc o] loads_empty_object b p a t c
        example_paths example_paths_distinct not_sym [OF example_paths_distinct(3)] files_put_file)
qed

text \<open>
  Claim C9, as the code has it. The path in a success result is the path string
  \<open>write_report\<close> opened: the override exactly as the caller gave it, neither
  resolved nor made absolute, or else the default path below \<open>repo_root()\<close>, which
  is absolute as \<open>repo_root()\<close> is. The file that this path names is the one the
  block was appended to.
\<close>

theorem result_path_is_the_path_opened:
  assumes "write_report rt io s n raw rf = (Ok p, s')"
  shows "p = (case rf of None \<Rightarrow> results_path rt | Some q \<Rightarrow> q) \<and>
         files s' (file_id rt p) =
           Some \<lparr>content = file_text (prepared rt io s) (file_id rt p) @ block_text rt (io, n, raw, rf),
                 mtime = clock io\<rparr> \<and>
         (rf = None \<and> isabs (repo_root rt) \<longrightarrow> isabs p)"
proof -
  from write_report_Ok [OF assms] obtain obj ls where
    p: "p = store_path rt rf" and
    l: "json_loads rt raw = Inr obj" and b: "block_lines rt n obj (ascii (now io)) = Inr ls" and
    s: "s' = put_file rt io (prepared rt io s) p (file_text (prepared rt io s) (file_id rt p) @ concat ls)"
    by blast
  have 1: "p = (case rf of None \<Rightarrow> results_path rt | Some q \<Rightarrow> q)"
    by (simp add: p store_path_def)
  have 2: "files s' (file_id rt p) =
           Some \<lparr>content = file_text (prepared rt io s) (file_id rt p) @ block_text rt (io, n, raw, rf),
                 mtime = clock io\<rparr>"
    by (simp add: s files_put_file l b)
  have 3: "rf = None \<and> isabs (repo_root rt) \<longrightarrow> isabs p"
    by (auto simp: 1 isabs_results_path)
  from 1 2 3 show ?thesis by blast
qed

theorem result_path_is_the_path_opened_witness:
  "fst (write_report example_runtime (quiet 0) empty_fs (ascii ''T'') (ascii ''{}'') None)
     = Ok (ascii ''/repo/test_reports/results.md'') \<and>
   isabs (repo_root example_runtime) \<and>
   isabs (ascii ''/repo/test_reports/results.md'') \<and>
   files (snd (write_report example_runtime (quiet 0) empty_fs (ascii ''T'') (ascii ''{}'') None))
       (ascii ''/repo/test_reports/results.md'')
     = Some \<lparr>content = block_text example_runtime (quiet 0, ascii ''T'', ascii ''{}'', None), mtime = 0\<rparr>"
proof -
  let ?w = "write_report example_runtime (quiet 0) empty_fs (ascii ''T'') (ascii ''{}'') None"
  let ?r = "ascii ''/repo/test_reports/results.md''"
  obtain ls where b: "block_lines example_runtime (ascii ''T'') (PDict []) (ascii (now (quiet 0))) = Inr ls"
    and enc: "list_all encodable ls"
    using empty_object_block [OF encodable_ascii] by blast
  have o: "store_opens example_runtime (prepared example_runtime (quiet 0) empty_fs) (store_path example_runtime None)"
    using store_opens_results [OF no_faults_quiet, of empty_fs 0] by (simp add: example_paths dirs_examples)
  have f: "fst ?w = Ok ?r"
    by (simp add: write_report_quiet [OF no_faults_quiet loads_empty_object b enc o] example_paths)
  then have e: "?w = (Ok ?r, snd ?w)" by (metis prod.collapse)
  have a: "isabs (repo_root example_runtime)"
    by (simp add: example_runtime_def isabs_def ascii_def)
  have t: "file_text (prepared example_runtime (quiet 0) empty_fs) ?r = []"
    by (simp add: prepared_example file_text_def ascii_def)
  have c: "clock (quiet 0) = 0" by (simp add: quiet_def)
  have r: "results_path example_runtime = ?r"
    using example_paths(1) by (simp add: store_path_def)
  from result_path_is_the_path_opened [OF e]
  have "files (snd ?w) (file_id example_runtime ?r) =
           Some \<lparr>content = file_text (prepared example_runtime (quiet 0) empty_fs) (file_id example_runtime ?r)
                   @ block_text example_runtime (quiet 0, ascii ''T'', ascii ''{}'', None),
                 mtime = clock (quiet 0)\<rparr>"
    and "isabs (repo_root example_runtime) \<longrightarrow> isabs ?r"
    by (simp_all add: r)
  with a f show ?thesis by (simp add: example_paths t c)
qed

section \<open>What a call has done when the parse fails\<close>

lemma prepared_bootstrap:
  assumes "makedirs_fault io = None" and "utime_fault io = None"
      and "open_w_fault io = None" and "write_w_fault io = None"
  shows "prepared rt io s =
     (let s1 = s\<lparr>dirs := insert (file_id rt (reports_dir rt)) (dirs s)\<rparr> in
      if path_exists rt s1 (suites_path rt)
      then (case files s (file_id rt (suites_path rt)) of
              None \<Rightarrow> s1
            | Some f \<Rightarrow> s1\<lparr>files := (files s)(file_id rt (suites_path rt) \<mapsto> f\<lparr>mtime := clock io\<rparr>)\<rparr>)
      else put_file rt io s1 (suites_path rt) suites_stub)"
  using assms
  by (simp add: prepared_def ensure_reports_dir_def os_makedirs_def
      generate_test_suites_file_def os_utime_def write_new_def Let_def split: option.splits)

lemma write_report_parse_error_bootstrap:
  assumes "json_loads rt raw = Inl e"
      and "makedirs_fault io = None" and "utime_fault io = None"
      and "open_w_fault io = None" and "write_w_fault io = None"
  shows "write_report rt io s n raw rf = (Err (exn_str e), prepared rt io s)"
  using assms
  by (auto simp: write_report_def write_report_body_def Let_def prepared_def
      ensure_reports_dir_def os_makedirs_def generate_test_suites_file_def os_utime_def write_new_def
      split: prod.splits sum.splits option.splits)

text \<open>
  The text \<open>{not json\<close> with the existing catalog file as the report path: the call
  returns the failure result of the parse, and the file of the report path has a new
  modification time, so it has not been left untouched.
\<close>

theorem parse_failure_touches_store_counterexample:
  "json_loads example_runtime not_json = Inl (JSONDecodeError
     (ascii ''Expecting property name enclosed in double quotes: line 1 column 2 (char 1)'')) \<and>
   files catalog_fs (ascii ''/repo/test_suites.md'') = Some \<lparr>content = ascii ''# my suites'', mtime = 0\<rparr> \<and>
   (case write_report example_runtime (quiet 7) catalog_fs (ascii ''T'') not_json
           (Some (ascii ''/repo/test_suites.md'')) of
      (r, s') \<Rightarrow>
        r = Err (ascii ''Expecting property name enclosed in double quotes: line 1 column 2 (char 1)'') \<and>
        files s' (ascii ''/repo/test_suites.md'') = Some \<lparr>content = ascii ''# my suites'', mtime = 7\<rparr> \<and>
        files s' (ascii ''/repo/test_suites.md'') \<noteq> files catalog_fs (ascii ''/repo/test_suites.md''))"
proof -
  have q: "makedirs_fault (quiet 7) = None" "utime_fault (quiet 7) = None"
    "open_w_fault (quiet 7) = None" "write_w_fault (quiet 7) = None" "clock (quiet 7) = 7"
    by (simp_all add: quiet_def)
  have t: "files (prepared example_runtime (quiet 7) catalog_fs) (ascii ''/repo/test_suites.md'')
      = Some \<lparr>content = ascii ''# my suites'', mtime = 7\<rparr>"
    using prepared_catalog [OF catalog_fs_file', of "quiet 7"] by (simp add: example_paths q)
  show ?thesis
    by (simp add: write_report_parse_error_bootstrap [OF loads_not_json q(1-4)] loads_not_json
        catalog_fs_file t)
qed

text \<open>
  Claim C10, as the code has it. Let the verdict text not be decoded, and let
  \<open>os.makedirs\<close>, \<open>os.utime\<close> and the writing of the stub not fail. Then
  \<open>write_report\<close> returns the failure result of the parse, and yet the reports
  directory exists afterwards, and the catalog file has its modification time set if
  it was there and has been created with the stub if nothing was at its path. The
  store file is as before, provided it is not the catalog file itself.
\<close>

theorem bootstrap_precedes_parse:
  assumes "json_loads rt raw = Inl e"
      and "makedirs_fault io = None" and "utime_fault io = None"
      and "open_w_fault io = None" and "write_w_fault io = None"
  shows "fst (write_report rt io s n raw rf) = Err (exn_str e) \<and>
         file_id rt (reports_dir rt) \<in> dirs (snd (write_report rt io s n raw rf)) \<and>
         (files s (file_id rt (suites_path rt)) = Some f \<longrightarrow>
            files (snd (write_report rt io s n raw rf)) (file_id rt (suites_path rt))
              = Some (f\<lparr>mtime := clock io\<rparr>)) \<and>
         (files s (file_id rt (suites_path rt)) = None \<and>
          file_id rt (suites_path rt) \<notin> dirs s \<and>
          file_id rt (suites_path rt) \<noteq> file_id rt (reports_dir rt) \<longrightarrow>
            files (snd (write_report rt io s n raw rf)) (file_id rt (suites_path rt))
              = Some \<lparr>content = suites_stub, mtime = clock io\<rparr>) \<and>
         (file_id rt (store_path rt rf) \<noteq> file_id rt (suites_path rt) \<longrightarrow>
            files (snd (write_report rt io s n raw rf)) (file_id rt (store_path rt rf))
              = files s (file_id rt (store_path rt rf)))"
proof -
  note w = write_report_parse_error_bootstrap [OF assms, of s n rf]
  note p = prepared_bootstrap [OF assms(2-5), of rt s]
  have 1: "fst (write_report rt io s n raw rf) = Err (exn_str e)" by (simp add: w)
  have 2: "file_id rt (reports_dir rt) \<in> dirs (snd (write_report rt io s n raw rf))"
    by (simp add: w p Let_def dirs_put_file split: option.splits)
  have 3: "files s (file_id rt (suites_path rt)) = Some f \<longrightarrow>
            files (snd (write_report rt io s n raw rf)) (file_id rt (suites_path rt))
              = Some (f\<lparr>mtime := clock io\<rparr>)"
    by (simp add: w prepared_catalog assms(3))
  have 4: "files s (file_id rt (suites_path rt)) = None \<and>
          file_id rt (suites_path rt) \<notin> dirs s \<and>
          file_id rt (suites_path rt) \<noteq> file_id rt (reports_dir rt) \<longrightarrow>
            files (snd (write_report rt io s n raw rf)) (file_id rt (suites_path rt))
              = Some \<lparr>content = suites_stub, mtime = clock io\<rparr>"
    by (simp add: w p Let_def path_exists_def files_put_file)
  have 5: "file_id rt (store_path rt rf) \<noteq> file_id rt (suites_path rt) \<longrightarrow>
            files (snd (write_report rt io s n raw rf)) (file_id rt (store_path rt rf))
              = files s (file_id rt (store_path rt rf))"
    by (simp add: w prepared_frame)
  from 1 2 3 4 5 show ?thesis by blast
qed

theorem bootstrap_precedes_parse_witness:
  "json_loads example_runtime not_json = Inl (JSONDecodeError
     (ascii ''Expecting property name enclosed in double quotes: line 1 column 2 (char 1)'')) \<and>
   makedirs_fault (quiet 3) = None \<and> utime_fault (quiet 3) = None \<and>
   open_w_fault (quiet 3) = None \<and> write_w_fault (quiet 3) = None \<and>
   fst (write_report example_runtime (quiet 3) empty_fs (ascii ''T'') not_json None)
     = Err (ascii ''Expecting property name enclosed in double quotes: line 1 column 2 (char 1)'') \<and>
   ascii ''/repo/test_reports'' \<in> dirs (snd (write_report example_runtime (quiet 3) empty_fs (ascii ''T'') not_json None)) \<and>
   files (snd (write_report example_runtime (quiet 3) empty_fs (ascii ''T'') not_json None))
       (ascii ''/repo/test_suites.md'')
     = Some \<lparr>content = suites_stub, mtime = 3\<rparr> \<and>
   files (snd (write_report example_runtime (quiet 3) empty_fs (ascii ''T'') not_json None))
       (ascii ''/repo/test_reports/results.md'') = None \<and>
   files (snd (write_report example_runtime (quiet 3) catalog_fs (ascii ''T'') not_json None))
       (ascii ''/repo/test_suites.md'')
     = Some \<lparr>content = ascii ''# my suites'', mtime = 3\<rparr>"
proof -
  have q: "makedirs_fault (quiet 3) = None" "utime_fault (quiet 3) = None"
    "open_w_fault (quiet 3) = None" "write_w_fault (quiet 3) = None"
    by (simp_all add: quiet_def)
  have c: "clock (quiet 3) = 3" by (simp add: quiet_def)
  have e: "files empty_fs (ascii ''/repo/test_suites.md'') = None"
    "ascii ''/repo/test_suites.md'' \<notin> dirs empty_fs"
    "files empty_fs (ascii ''/repo/test_reports/results.md'') = None"
    by (simp_all add: empty_fs_def)
  have d: "ascii ''/repo/test_suites.md'' \<noteq> ascii ''/repo/test_reports''"
    by (simp add: ascii_def)
  from bootstrap_precedes_parse [OF loads_not_json q, where s = empty_fs and n = "ascii ''T''" and rf = None]
    e d
  have 1: "fst (write_report example_runtime (quiet 3) empty_fs (ascii ''T'') not_json None)
     = Err (ascii ''Expecting property name enclosed in double quotes: line 1 column 2 (char 1)'')"
    and 2: "ascii ''/repo/test_reports'' \<in> dirs (snd (write_report example_runtime (quiet 3) empty_fs (ascii ''T'') not_json None))"
    and 3: "files (snd (write_report example_runtime (quiet 3) empty_fs (ascii ''T'') not_json None))
       (ascii ''/repo/test_suites.md'') = Some \<lparr>content = suites_stub, mtime = 3\<rparr>"
    and 4: "files (snd (write_report example_runtime (quiet 3) empty_fs (ascii ''T'') not_json None))
       (ascii ''/repo/test_reports/results.md'') = None"
    by (simp_all add: example_paths example_paths_distinct c)
  from bootstrap_precedes_parse [OF loads_not_json q, where s = catalog_fs and n = "ascii ''T''" and rf = None
      and f = "\<lparr>content = ascii ''# my suites'', mtime = 0\<rparr>"]
    catalog_fs_file
  have 5: "files (snd (write_report example_runtime (quiet 3) catalog_fs (ascii ''T'') not_json None))
       (ascii ''/repo/test_suites.md'') = Some \<lparr>content = ascii ''# my suites'', mtime = 3\<rparr>"
    by (simp add: example_paths c)
  from loads_not_json q 1 2 3 4 5 show ?thesis by simp
qed

end
